theory Spec2Isabelle
  imports Main
begin

section \<open>JavaScript values\<close>

text \<open>
  The program of \<^verbatim>\<open>src/etherscan.ts\<close> works on values it obtains from
  \<^verbatim>\<open>JSON.parse\<close> and from HTTP response bodies, all of TypeScript type
  \<^verbatim>\<open>any\<close>. They are modelled by one datatype: the JSON values and
  \<^verbatim>\<open>undefined\<close>. An object is the list of its own enumerable properties in
  enumeration order. A number is given by the text that \<^verbatim>\<open>String(n)\<close>
  yields for it; the program never computes with a number, it only tests one
  for truthiness and interpolates it into a string.
\<close>

datatype jsval =
    JUndefined
  | JNull
  | JBool bool
  | JNum string
  | JStr string
  | JArr "jsval list"
  | JObj "(string \<times> jsval) list"

text \<open>The exceptions that can leave a function of the program.\<close>

datatype js_error = TypeError | SyntaxError | RequestError | EncodeError

text \<open>
  How a piece of the \<^verbatim>\<open>submit\<close> function ends: it falls through to the next
  statement with a value, it executes \<^verbatim>\<open>return\<close>, it throws, it awaits a
  promise that never settles, or it leaves the part of JavaScript modelled
  here (see \<open>get_dyn\<close>, \<open>own_entries\<close> and \<open>set_prop\<close>).
\<close>

datatype 'a step = Continue 'a | Return | Throw js_error | Hang | Unmodelled

fun truthy :: "jsval \<Rightarrow> bool" where
  "truthy JUndefined = False"
| "truthy JNull = False"
| "truthy (JBool b) = b"
| "truthy (JNum s) = (s \<noteq> ''0'')"
| "truthy (JStr s) = (s \<noteq> [])"
| "truthy (JArr xs) = True"
| "truthy (JObj kvs) = True"

text \<open>Truthiness of a value of type \<^verbatim>\<open>string | undefined\<close>.\<close>

fun truthy_str :: "string option \<Rightarrow> bool" where
  "truthy_str None = False"
| "truthy_str (Some s) = (s \<noteq> [])"

fun nullish :: "jsval \<Rightarrow> bool" where
  "nullish JUndefined = True"
| "nullish JNull = True"
| "nullish v = False"

text \<open>Sequencing of steps: a step that does not fall through ends the whole sequence.\<close>

fun bind_step :: "'a step \<Rightarrow> ('a \<Rightarrow> 'b step) \<Rightarrow> 'b step" where
  "bind_step (Continue a) f = f a"
| "bind_step Return f = Return"
| "bind_step (Throw e) f = Throw e"
| "bind_step Hang f = Hang"
| "bind_step Unmodelled f = Unmodelled"

fun fold_step :: "('a \<Rightarrow> 'b \<Rightarrow> 'b step) \<Rightarrow> 'a list \<Rightarrow> 'b \<Rightarrow> 'b step" where
  "fold_step f [] s = Continue s"
| "fold_step f (x # xs) s = bind_step (f x s) (\<lambda>s'. fold_step f xs s')"

text \<open>
  \<^verbatim>\<open>String(v)\<close>, as a template literal and \<^verbatim>\<open>JSON.parse\<close> apply it. An
  object is converted by its \<^verbatim>\<open>toString\<close> method: the inherited one yields
  \<^verbatim>\<open>[object Object]\<close>, and an own property of that name, which in a parsed
  value is never a function, leaves no method that yields a primitive value,
  so that the conversion throws. An array joins the conversions of its
  elements, those of \<^verbatim>\<open>null\<close> and \<^verbatim>\<open>undefined\<close> being empty.
\<close>

fun to_string :: "jsval \<Rightarrow> string step"
  and join_elems :: "jsval list \<Rightarrow> string step" where
  "to_string JUndefined = Continue ''undefined''"
| "to_string JNull = Continue ''null''"
| "to_string (JBool b) = Continue (if b then ''true'' else ''false'')"
| "to_string (JNum s) = Continue s"
| "to_string (JStr s) = Continue s"
| "to_string (JArr xs) = join_elems xs"
| "to_string (JObj kvs) =
     (if ''toString'' \<in> fst ` set kvs then Throw TypeError else Continue ''[object Object]'')"
| "join_elems [] = Continue []"
| "join_elems (x # xs) =
     bind_step (if nullish x then Continue [] else to_string x) (\<lambda>s.
       if xs = [] then Continue s
       else bind_step (join_elems xs) (\<lambda>t. Continue (s @ '','' @ t)))"

text \<open>
  The properties every object inherits from \<^verbatim>\<open>Object.prototype\<close>. Reading one
  of them from an object that has no own property of that name yields a
  built-in function (for \<^verbatim>\<open>__proto__\<close> the prototype object), which is truthy
  and has none of the properties the program reads.
\<close>

definition object_prototype_names :: "string list" where
  "object_prototype_names =
     [''constructor'', ''__defineGetter__'', ''__defineSetter__'', ''hasOwnProperty'',
      ''__lookupGetter__'', ''__lookupSetter__'', ''isPrototypeOf'', ''propertyIsEnumerable'',
      ''toString'', ''valueOf'', ''__proto__'', ''toLocaleString'']"

text \<open>
  \<^verbatim>\<open>v.k\<close> for the property names the program writes out in its text
  (\<^verbatim>\<open>status\<close>, \<^verbatim>\<open>result\<close>, \<^verbatim>\<open>message\<close>, \<^verbatim>\<open>settings\<close>,
  \<^verbatim>\<open>compilationTarget\<close>, \<^verbatim>\<open>sources\<close>, \<^verbatim>\<open>content\<close>, \<^verbatim>\<open>language\<close>,
  \<^verbatim>\<open>compiler\<close>, \<^verbatim>\<open>version\<close>, \<^verbatim>\<open>libraries\<close>, \<^verbatim>\<open>type\<close>, \<^verbatim>\<open>inputs\<close>).
  No prototype of a JSON value has a property of one of these names, so the
  read yields the own property of an object and \<^verbatim>\<open>undefined\<close> otherwise; on
  \<^verbatim>\<open>null\<close> and \<^verbatim>\<open>undefined\<close> it throws.
\<close>

fun get_field :: "jsval \<Rightarrow> string \<Rightarrow> jsval step" where
  "get_field JUndefined k = Throw TypeError"
| "get_field JNull k = Throw TypeError"
| "get_field (JObj kvs) k = Continue (case map_of kvs k of Some v \<Rightarrow> v | None \<Rightarrow> JUndefined)"
| "get_field v k = Continue JUndefined"

text \<open>
  \<^verbatim>\<open>v[k]\<close> for a name computed at run time: the own property, an inherited
  one, or nothing. Arrays and primitive values inherit from prototypes whose
  members depend on the engine; a computed read from one of them is outside
  the model.
\<close>

datatype lookup = Own jsval | Inherited | Absent

fun get_dyn :: "jsval \<Rightarrow> string \<Rightarrow> lookup step" where
  "get_dyn JUndefined k = Throw TypeError"
| "get_dyn JNull k = Throw TypeError"
| "get_dyn (JObj kvs) k =
     Continue (case map_of kvs k of
                 Some v \<Rightarrow> Own v
               | None \<Rightarrow> if k \<in> set object_prototype_names then Inherited else Absent)"
| "get_dyn v k = Unmodelled"

fun truthy_lookup :: "lookup \<Rightarrow> bool" where
  "truthy_lookup (Own v) = truthy v"
| "truthy_lookup Inherited = True"
| "truthy_lookup Absent = False"

text \<open>
  The own enumerable properties of a value, as \<^verbatim>\<open>Object.keys\<close> and object
  spread see them. Those of a non-empty array or string are its indices, which
  the model does not name (\<open>None\<close>).
\<close>

fun own_entries :: "jsval \<Rightarrow> (string \<times> jsval) list option" where
  "own_entries (JObj kvs) = Some kvs"
| "own_entries (JArr xs) = (if xs = [] then Some [] else None)"
| "own_entries (JStr s) = (if s = [] then Some [] else None)"
| "own_entries v = Some []"

definition object_keys :: "jsval \<Rightarrow> string list step" where
  "object_keys v =
     (if nullish v then Throw TypeError
      else case own_entries v of None \<Rightarrow> Unmodelled | Some kvs \<Rightarrow> Continue (map fst kvs))"

text \<open>Replacing the value of an own property keeps its place in the enumeration order.\<close>

fun replace_value :: "(string \<times> jsval) list \<Rightarrow> string \<Rightarrow> jsval \<Rightarrow> (string \<times> jsval) list" where
  "replace_value [] k v = []"
| "replace_value ((k', v') # kvs) k v =
     (if k' = k then (k, v) # kvs else (k', v') # replace_value kvs k v)"

definition all_digits :: "string \<Rightarrow> bool" where
  "all_digits s = (s \<noteq> [] \<and> list_all (\<lambda>c. c \<in> set ''0123456789'') s)"

text \<open>
  The array index that a property name denotes: the name is the decimal
  numeral, without leading zeros, of a number below \<open>2\<^sup>3\<^sup>2 - 1\<close>. Properties
  with such names are enumerated first, in the order of their numbers, and the
  others after them in the order of their creation.
\<close>

definition numeral_value :: "string \<Rightarrow> nat" where
  "numeral_value s = foldl (\<lambda>n c. 10 * n + (of_char c - 48)) 0 s"

definition array_index :: "string \<Rightarrow> nat option" where
  "array_index s =
     (if all_digits s \<and> (s = ''0'' \<or> hd s \<noteq> CHR ''0'') \<and> numeral_value s < 4294967295
      then Some (numeral_value s) else None)"

fun insert_index :: "(string \<times> jsval) list \<Rightarrow> nat \<Rightarrow> string \<Rightarrow> jsval \<Rightarrow> (string \<times> jsval) list" where
  "insert_index [] i k v = [(k, v)]"
| "insert_index ((k', v') # kvs) i k v =
     (case array_index k' of
        None \<Rightarrow> (k, v) # (k', v') # kvs
      | Some j \<Rightarrow> if j < i then (k', v') # insert_index kvs i k v else (k, v) # (k', v') # kvs)"

text \<open>
  \<^verbatim>\<open>o[k] = v\<close>. On an object an existing own property is overwritten in
  place. Otherwise the name \<^verbatim>\<open>__proto__\<close> reaches the setter inherited from
  \<^verbatim>\<open>Object.prototype\<close>, which stores no property: it does nothing for a
  primitive value and replaces the prototype for an object, and the program
  never reads an inherited property from an object it has assigned an object
  to. Any other new property is created, at its place in the enumeration
  order. Assignments to an array or a primitive value are outside the model.
\<close>

fun set_prop :: "jsval \<Rightarrow> string \<Rightarrow> jsval \<Rightarrow> jsval step" where
  "set_prop JUndefined k v = Throw TypeError"
| "set_prop JNull k v = Throw TypeError"
| "set_prop (JObj kvs) k v =
     (if k \<in> fst ` set kvs then Continue (JObj (replace_value kvs k v))
      else if k = ''__proto__'' then Continue (JObj kvs)
      else case array_index k of
             Some i \<Rightarrow> Continue (JObj (insert_index kvs i k v))
           | None \<Rightarrow> Continue (JObj (kvs @ [(k, v)])))"
| "set_prop w k v = Unmodelled"

section \<open>Inputs, environment and observable events\<close>

text \<open>The \<^verbatim>\<open>config\<close> argument of \<^verbatim>\<open>submitSources\<close>; the two flags are only tested for truthiness.\<close>

record config =
  etherscanApiKey :: "string option"
  license :: "string option"
  fallbackOnSolcInput :: bool
  forceLicense :: bool

text \<open>
  A deployment record of \<^verbatim>\<open>hre.deployments.all()\<close>, with the fields the
  program reads. The library table lists its entries in enumeration order.
\<close>

record deployment =
  address :: string
  metadata :: "string option"
  abi :: "jsval list"
  args :: "jsval list option"
  libraries :: "(string \<times> string) list option"
  solcInputHash :: "string option"

text \<open>
  The library functions the program calls, as parameters: \<^verbatim>\<open>JSON.parse\<close>
  (\<open>None\<close> when it throws), \<^verbatim>\<open>JSON.stringify\<close>, the call
  \<^verbatim>\<open>matchAll(source, regex).toArray()\<close> of the match-all package for the
  SPDX pattern, \<^verbatim>\<open>defaultAbiCoder.encode\<close>, and \<^verbatim>\<open>fs.readFileSync\<close> of a
  file in a directory (\<open>None\<close> when it throws).
\<close>

record runtime =
  JSON_parse :: "string \<Rightarrow> jsval option"
  JSON_stringify :: "jsval \<Rightarrow> string"
  matchAll :: "jsval \<Rightarrow> string list option"
  abi_encode :: "jsval \<Rightarrow> jsval list \<Rightarrow> string option"
  readFileSync :: "string \<Rightarrow> string \<Rightarrow> string option"

text \<open>The object \<^verbatim>\<open>postData\<close> of lines 295-308.\<close>

record post_data =
  apikey :: "string option"
  module :: string
  action :: string
  contractaddress :: string
  sourceCode :: string
  codeformat :: string
  contractname :: string
  compilerversion :: string
  constructorArguements :: "string option"
  licenseType :: nat

text \<open>
  What the program prints, one constructor for each call of a logging function
  in the source, with the values interpolated into its text.
\<close>

datatype message =
    NetworkNotSupported string
  | Caught js_error
  | AlreadyVerified string string
  | NoMetadata string
  | NoQualifiedName string
  | NoLicense string string
  | LicenseMismatch "string option" string "string option"
  | SourceLicenseUnsupported "string option" string string
  | LicenseUnsupported "string option"
  | NoSolcInput string
  | Verifying string string
  | NoArgs
  | Dump jsval
  | SubmitFailed string string jsval
  | NoGuid string
  | WaitingForResult
  | VerifyFailed string string string
  | Payload post_data
  | NowVerified string
  | FallingBack
  | Guidance

datatype level = log | logError | logInfo | logSuccess

text \<open>
  The effects of a run in the order they happen: console output, the three
  kinds of HTTP request (with host, and the values sent), and the delay of the
  polling loop in milliseconds.
\<close>

datatype event =
    Console level message
  | GetAbi string string "string option"
  | Post string post_data
  | CheckStatus string "string option" jsval
  | Delay nat

text \<open>A step together with what it printed before it ended.\<close>

type_synonym 'a logged = "event list \<times> 'a step"

definition quiet :: "'a step \<Rightarrow> 'a logged" where
  "quiet s = ([], s)"

fun and_then :: "'a logged \<Rightarrow> ('a \<Rightarrow> 'b logged) \<Rightarrow> 'b logged" where
  "and_then (l, Continue a) f = (l @ fst (f a), snd (f a))"
| "and_then (l, Return) f = (l, Return)"
| "and_then (l, Throw e) f = (l, Throw e)"
| "and_then (l, Hang) f = (l, Hang)"
| "and_then (l, Unmodelled) f = (l, Unmodelled)"

section \<open>Licenses (lines 27-94)\<close>

text \<open>
  The loop of \<^verbatim>\<open>extractLicenseFromSources\<close>. \<^verbatim>\<open>licensesFound\<close> is a plain
  object used as a set, so \<^verbatim>\<open>licensesFound[match]\<close> is also truthy for the
  names inherited from \<^verbatim>\<open>Object.prototype\<close>.
\<close>

fun collect_licenses :: "string list \<Rightarrow> string list \<Rightarrow> string list \<Rightarrow> string list" where
  "collect_licenses [] licensesFound licenses = licenses"
| "collect_licenses (m # ms) licensesFound licenses =
     (if m \<in> set licensesFound \<or> m \<in> set object_prototype_names
      then collect_licenses ms licensesFound licenses
      else collect_licenses ms (m # licensesFound) (licenses @ [m]))"

definition extractLicenseFromSources :: "runtime \<Rightarrow> jsval \<Rightarrow> string list step" where
  "extractLicenseFromSources rt source =
     (case matchAll rt source of
        None \<Rightarrow> Throw TypeError
      | Some matches \<Rightarrow> Continue (collect_licenses matches [] []))"

definition extractOneLicenseFromSourceFile :: "runtime \<Rightarrow> jsval \<Rightarrow> string option step" where
  "extractOneLicenseFromSourceFile rt source =
     bind_step (extractLicenseFromSources rt source) (\<lambda>licenses.
       case licenses of [] \<Rightarrow> Continue None | l # _ \<Rightarrow> Continue (Some l))"

definition getLicenseType :: "string \<Rightarrow> nat option" where
  "getLicenseType lic =
     (if lic = ''None'' then Some 1
      else if lic = ''UNLICENSED'' then Some 2
      else if lic = ''MIT'' then Some 3
      else if lic = ''GPL-2.0'' then Some 4
      else if lic = ''GPL-3.0'' then Some 5
      else if lic = ''LGPL-2.1'' then Some 6
      else if lic = ''LGPL-3.0'' then Some 7
      else if lic = ''BSD-2-Clause'' then Some 8
      else if lic = ''BSD-3-Clause'' then Some 9
      else if lic = ''MPL-2.0'' then Some 10
      else if lic = ''OSL-3.0'' then Some 11
      else if lic = ''Apache-2.0'' then Some 12
      else if lic = ''AGPL-3.0'' then Some 13
      else None)"

text \<open>\<^verbatim>\<open>getLicenseType(license)\<close> for a variable of type \<^verbatim>\<open>string | undefined\<close>, and \<^verbatim>\<open>!licenseType\<close>.\<close>

definition license_type_of :: "string option \<Rightarrow> nat option" where
  "license_type_of lic = (case lic of None \<Rightarrow> None | Some s \<Rightarrow> getLicenseType s)"

fun falsy_number :: "nat option \<Rightarrow> bool" where
  "falsy_number None = True"
| "falsy_number (Some n) = (n = 0)"

text \<open>Lines 220-226: the code of the effective license, or the end of this contract.\<close>

definition check_license_type :: "string option \<Rightarrow> (string option \<times> nat) logged" where
  "check_license_type lic =
     (case license_type_of lic of
        None \<Rightarrow> ([Console logError (LicenseUnsupported lic)], Return)
      | Some n \<Rightarrow>
          if n = 0 then ([Console logError (LicenseUnsupported lic)], Return)
          else quiet (Continue (lic, n)))"

text \<open>Lines 196-226: the effective license and its code.\<close>

definition resolve_license ::
  "config \<Rightarrow> string \<Rightarrow> string \<Rightarrow> string option \<Rightarrow> (string option \<times> nat) logged" where
  "resolve_license cfg name contractNamePath sourceLicenseType =
     (let licenseOption = license cfg in
      if \<not> truthy_str sourceLicenseType then
        (if \<not> truthy_str licenseOption
         then ([Console logError (NoLicense name contractNamePath)], Return)
         else check_license_type licenseOption)
      else if truthy_str licenseOption \<and> licenseOption \<noteq> sourceLicenseType then
        (if \<not> forceLicense cfg
         then ([Console logError (LicenseMismatch licenseOption name sourceLicenseType)], Return)
         else check_license_type licenseOption)
      else
        (if falsy_number (license_type_of sourceLicenseType)
         then ([Console logError (SourceLicenseUnsupported sourceLicenseType name contractNamePath)], Return)
         else check_license_type sourceLicenseType))"

section \<open>The per-contract pipeline before the submission (lines 147-308)\<close>

definition parse_json :: "runtime \<Rightarrow> string \<Rightarrow> jsval step" where
  "parse_json rt s = (case JSON_parse rt s of None \<Rightarrow> Throw SyntaxError | Some v \<Rightarrow> Continue v)"

text \<open>
  Lines 152-165: the answer of the \<^verbatim>\<open>getabi\<close> request. Whatever the
  \<^verbatim>\<open>try\<close> block throws is printed and ends this contract.
\<close>

definition check_verified :: "runtime \<Rightarrow> string \<Rightarrow> string \<Rightarrow> jsval \<Rightarrow> unit logged" where
  "check_verified rt name addr abiData =
     and_then (quiet (get_field abiData ''status'')) (\<lambda>status.
     and_then
       (if status \<noteq> JStr ''0'' then
          (case bind_step (get_field abiData ''result'') (\<lambda>result.
                  bind_step (to_string result) (parse_json rt)) of
             Throw e \<Rightarrow> ([Console logError (Caught e)], Return)
           | parsed \<Rightarrow> quiet parsed)
        else quiet (Continue JUndefined)) (\<lambda>contractABI.
     if truthy contractABI \<and> contractABI \<noteq> JStr []
     then ([Console log (AlreadyVerified name addr)], Return)
     else quiet (Continue ())))"

text \<open>Lines 167-173.\<close>

definition parse_metadata :: "runtime \<Rightarrow> string \<Rightarrow> string option \<Rightarrow> jsval logged" where
  "parse_metadata rt name metadataString =
     (case metadataString of
        None \<Rightarrow> ([Console logError (NoMetadata name)], Return)
      | Some s \<Rightarrow>
          if s = [] then ([Console logError (NoMetadata name)], Return)
          else quiet (parse_json rt s))"

text \<open>
  Lines 179-180: \<^verbatim>\<open>Object.keys(compilationTarget)[0]\<close> and the value stored
  under it; both are \<^verbatim>\<open>undefined\<close> when there is no key.
\<close>

definition first_entry :: "jsval \<Rightarrow> (string option \<times> jsval) step" where
  "first_entry compilationTarget =
     bind_step (object_keys compilationTarget) (\<lambda>keys.
       case keys of
         [] \<Rightarrow> Continue (None, JUndefined)
       | contractFilepath # _ \<Rightarrow>
           bind_step (get_dyn compilationTarget contractFilepath) (\<lambda>r.
             case r of
               Own contractName \<Rightarrow> Continue (Some contractFilepath, contractName)
             | Inherited \<Rightarrow> Unmodelled
             | Absent \<Rightarrow> Continue (Some contractFilepath, JUndefined)))"

text \<open>Lines 174-187: the file path and the name of the contract.\<close>

definition compilation_target :: "string \<Rightarrow> jsval \<Rightarrow> (string \<times> jsval) logged" where
  "compilation_target name meta =
     and_then (quiet (get_field meta ''settings'')) (\<lambda>settings.
     and_then (quiet (if nullish settings then Continue JUndefined
                      else get_field settings ''compilationTarget'')) (\<lambda>compilationTarget.
     and_then (quiet (if truthy compilationTarget then first_entry compilationTarget
                      else Continue (None, JUndefined))) (\<lambda>(contractFilepath, contractName).
     case contractFilepath of
       None \<Rightarrow> ([Console logError (NoQualifiedName name)], Return)
     | Some path \<Rightarrow>
         if path = [] \<or> \<not> truthy contractName
         then ([Console logError (NoQualifiedName name)], Return)
         else quiet (Continue (path, contractName)))))"

text \<open>Line 191: \<^verbatim>\<open>metadata.sources[contractFilepath].content\<close>.\<close>

definition content_of :: "lookup \<Rightarrow> jsval step" where
  "content_of entry =
     (case entry of
        Own source \<Rightarrow> get_field source ''content''
      | Inherited \<Rightarrow> Continue JUndefined
      | Absent \<Rightarrow> Throw TypeError)"

definition source_file :: "jsval \<Rightarrow> string \<Rightarrow> jsval step" where
  "source_file meta contractFilepath =
     bind_step (get_field meta ''sources'') (\<lambda>sources.
     bind_step (get_dyn sources contractFilepath) content_of)"

text \<open>Lines 234-247: the compiler input saved at deployment.\<close>

definition read_solc_input :: "runtime \<Rightarrow> string \<Rightarrow> string \<Rightarrow> deployment \<Rightarrow> jsval logged" where
  "read_solc_input rt solcInputsPath name dep =
     (let file = (case solcInputHash dep of None \<Rightarrow> ''undefined'' | Some h \<Rightarrow> h) @ ''.json'' in
      case readFileSync rt solcInputsPath file of
        None \<Rightarrow> ([Console logError (NoSolcInput name)], Return)
      | Some s \<Rightarrow>
          if s = [] then ([Console logError (NoSolcInput name)], Return)
          else quiet (parse_json rt s))"

text \<open>Lines 256-262: the loop that copies the sources, keeping their content only.\<close>

fun copy_sources :: "jsval \<Rightarrow> string list \<Rightarrow> jsval \<Rightarrow> jsval step" where
  "copy_sources sources [] acc = Continue acc"
| "copy_sources sources (sourcePath # rest) acc =
     bind_step (get_dyn sources sourcePath) (\<lambda>source.
     bind_step (content_of source) (\<lambda>content.
     bind_step (set_prop acc sourcePath (JObj [(''content'', content)])) (\<lambda>acc'.
     copy_sources sources rest acc')))"

text \<open>Lines 249-263: the compiler input rebuilt from the metadata.\<close>

definition solc_input_from_metadata :: "jsval \<Rightarrow> jsval step" where
  "solc_input_from_metadata meta =
     bind_step (get_field meta ''settings'') (\<lambda>msettings.
     bind_step (case own_entries msettings of None \<Rightarrow> Unmodelled | Some kvs \<Rightarrow> Continue kvs) (\<lambda>copied.
     let settings = filter (\<lambda>kv. fst kv \<noteq> ''compilationTarget'') copied in
     bind_step (get_field meta ''language'') (\<lambda>language.
     bind_step (get_field meta ''sources'') (\<lambda>sources.
     bind_step (object_keys sources) (\<lambda>keys.
     bind_step (copy_sources sources keys (JObj [])) (\<lambda>copies.
     Continue (JObj [(''language'', language), (''settings'', JObj settings), (''sources'', copies)])))))))"

text \<open>Lines 270-274: the body of the loop over the library names, on \<^verbatim>\<open>settings\<close>.\<close>

definition library_address :: "(string \<times> string) list \<Rightarrow> string \<Rightarrow> jsval" where
  "library_address libs libraryName =
     (case map_of libs libraryName of None \<Rightarrow> JUndefined | Some a \<Rightarrow> JStr a)"

definition add_library :: "string \<Rightarrow> (string \<times> string) list \<Rightarrow> string \<Rightarrow> jsval \<Rightarrow> jsval step" where
  "add_library contractNamePath libs libraryName settings =
     bind_step (get_field settings ''libraries'') (\<lambda>l.
     bind_step (get_dyn l contractNamePath) (\<lambda>e.
     bind_step (if \<not> truthy_lookup e then set_prop l contractNamePath (JObj []) else Continue l) (\<lambda>l1.
     bind_step (get_dyn l1 contractNamePath) (\<lambda>e1.
     bind_step (case e1 of
                  Own r \<Rightarrow> set_prop r libraryName (library_address libs libraryName)
                | Inherited \<Rightarrow> Unmodelled
                | Absent \<Rightarrow> Throw TypeError) (\<lambda>r'.
     bind_step (set_prop l1 contractNamePath r') (\<lambda>l2.
     set_prop settings ''libraries'' l2))))))"

text \<open>
  Lines 265-276. The source updates the objects in place; here each updated
  object is stored back under the name it was read from.
\<close>

definition add_libraries :: "string \<Rightarrow> (string \<times> string) list option \<Rightarrow> jsval \<Rightarrow> jsval step" where
  "add_libraries contractNamePath deployment_libraries solcInput =
     (case deployment_libraries of
        None \<Rightarrow> Continue solcInput
      | Some libs \<Rightarrow>
          bind_step (get_field solcInput ''settings'') (\<lambda>settings.
          bind_step (get_field settings ''libraries'') (\<lambda>cur.
          bind_step (set_prop settings ''libraries'' (if truthy cur then cur else JObj [])) (\<lambda>settings1.
          bind_step (fold_step (add_library contractNamePath libs) (map fst libs) settings1) (\<lambda>settings2.
          set_prop solcInput ''settings'' settings2)))))"

text \<open>Lines 283-285: \<^verbatim>\<open>deployment.abi.find((v) => v.type === 'constructor')\<close>.\<close>

fun find_constructor :: "jsval list \<Rightarrow> jsval option step" where
  "find_constructor [] = Continue None"
| "find_constructor (v # vs) =
     bind_step (get_field v ''type'') (\<lambda>t.
       if t = JStr ''constructor'' then Continue (Some v) else find_constructor vs)"

text \<open>Lines 281-293: the encoded constructor arguments, without the leading \<^verbatim>\<open>0x\<close>.\<close>

definition constructor_arguments :: "runtime \<Rightarrow> deployment \<Rightarrow> string option logged" where
  "constructor_arguments rt dep =
     (case args dep of
        None \<Rightarrow> ([Console logInfo NoArgs], Continue None)
      | Some as \<Rightarrow>
          quiet (bind_step (find_constructor (abi dep)) (\<lambda>found.
            case found of
              None \<Rightarrow> Continue None
            | Some ctor \<Rightarrow>
                if truthy ctor then
                  bind_step (get_field ctor ''inputs'') (\<lambda>inputs.
                    case abi_encode rt inputs as of
                      None \<Rightarrow> Throw EncodeError
                    | Some encoded \<Rightarrow> Continue (Some (drop 2 encoded)))
                else Continue None)))"

text \<open>Line 305: the template literal \<^verbatim>\<open>v${metadata.compiler.version}\<close>.\<close>

definition compiler_version :: "jsval \<Rightarrow> string step" where
  "compiler_version meta =
     bind_step (get_field meta ''compiler'') (\<lambda>compiler.
     bind_step (get_field compiler ''version'') (\<lambda>version.
     bind_step (to_string version) (\<lambda>versionText.
     Continue (''v'' @ versionText))))"

text \<open>
  Lines 152-194: everything before the license is resolved. It yields the
  parsed metadata, the file path of the contract, \<^verbatim>\<open>contractNamePath\<close> and the
  license found in the source file.
\<close>

definition front ::
  "runtime \<Rightarrow> string \<Rightarrow> deployment \<Rightarrow> jsval \<Rightarrow> (jsval \<times> string \<times> string \<times> string option) logged" where
  "front rt name dep abiData =
     and_then (check_verified rt name (address dep) abiData) (\<lambda>_.
     and_then (parse_metadata rt name (metadata dep)) (\<lambda>meta.
     and_then (compilation_target name meta) (\<lambda>(contractFilepath, contractName).
     and_then (quiet (to_string contractName)) (\<lambda>contractNameText.
     let contractNamePath = contractFilepath @ '':'' @ contractNameText in
     and_then (quiet (bind_step (source_file meta contractFilepath) (extractOneLicenseFromSourceFile rt)))
       (\<lambda>sourceLicenseType.
     quiet (Continue (meta, contractFilepath, contractNamePath, sourceLicenseType)))))))"

text \<open>Lines 228-308: from the compiler input to the payload of the submission.\<close>

definition build_payload ::
  "runtime \<Rightarrow> config \<Rightarrow> string \<Rightarrow> string \<Rightarrow> deployment \<Rightarrow> bool \<Rightarrow> jsval \<Rightarrow> string \<Rightarrow> nat
     \<Rightarrow> post_data logged" where
  "build_payload rt cfg solcInputsPath name dep useSolcInput meta contractNamePath code =
     and_then (if useSolcInput then read_solc_input rt solcInputsPath name dep
               else quiet (solc_input_from_metadata meta)) (\<lambda>solcInput.
     and_then (quiet (add_libraries contractNamePath (libraries dep) solcInput)) (\<lambda>solcInput'.
     and_then ([Console logInfo (Verifying name (address dep))],
               Continue (JSON_stringify rt solcInput')) (\<lambda>solcInputString.
     and_then (constructor_arguments rt dep) (\<lambda>encoded.
     and_then (quiet (compiler_version meta)) (\<lambda>version.
     quiet (Continue
       \<lparr>apikey = etherscanApiKey cfg,
        module = ''contract'',
        action = ''verifysourcecode'',
        contractaddress = address dep,
        sourceCode = solcInputString,
        codeformat = ''solidity-standard-json-input'',
        contractname = contractNamePath,
        compilerversion = version,
        constructorArguements = encoded,
        licenseType = code\<rparr>))))))"

definition prepare ::
  "runtime \<Rightarrow> config \<Rightarrow> string \<Rightarrow> string \<Rightarrow> deployment \<Rightarrow> bool \<Rightarrow> jsval \<Rightarrow> post_data logged" where
  "prepare rt cfg solcInputsPath name dep useSolcInput abiData =
     and_then (front rt name dep abiData) (\<lambda>(meta, contractFilepath, contractNamePath, sourceLicenseType).
     and_then (resolve_license cfg name contractNamePath sourceLicenseType) (\<lambda>(lic, code).
     build_payload rt cfg solcInputsPath name dep useSolcInput meta contractNamePath code))"

section \<open>The explorer, the submission and the polling loop (lines 146-151 and 310-403)\<close>

text \<open>
  The explorer is given by the answers it will send, in their order: a
  response body, or a failed request (\<^verbatim>\<open>axios\<close> rejects). When the answers
  have run out a request is never answered. A run yields the events so far,
  the answers not yet consumed and the way it ended.
\<close>

datatype reply = Reply jsval | Fails

type_synonym 'a run = "event list \<times> reply list \<times> 'a step"

fun then_run :: "'a run \<Rightarrow> ('a \<Rightarrow> reply list \<Rightarrow> 'b run) \<Rightarrow> 'b run" where
  "then_run (t, s, Continue a) f = (t @ fst (f a s), snd (f a s))"
| "then_run (t, s, Return) f = (t, s, Return)"
| "then_run (t, s, Throw e) f = (t, s, Throw e)"
| "then_run (t, s, Hang) f = (t, s, Hang)"
| "then_run (t, s, Unmodelled) f = (t, s, Unmodelled)"

definition perform :: "'a logged \<Rightarrow> reply list \<Rightarrow> 'a run" where
  "perform m s = (fst m, s, snd m)"

text \<open>A request: the event, then the next answer of the explorer.\<close>

fun request :: "event \<Rightarrow> reply list \<Rightarrow> jsval run" where
  "request e [] = ([e], [], Hang)"
| "request e (Reply d # rs) = ([e], rs, Continue d)"
| "request e (Fails # rs) = ([e], rs, Throw RequestError)"

text \<open>Lines 316-332: the job identifier in the answer to the submission.\<close>

definition submission_guid :: "string \<Rightarrow> jsval \<Rightarrow> jsval logged" where
  "submission_guid name submissionData =
     and_then (quiet (get_field submissionData ''status'')) (\<lambda>status.
     and_then
       (if status = JStr ''1'' then quiet (get_field submissionData ''result'')
        else and_then ([Console log (Dump submissionData)],
                       bind_step (get_field submissionData ''message'') to_string) (\<lambda>messageText.
               ([Console logError (SubmitFailed name messageText submissionData)], Return))) (\<lambda>guid.
     if \<not> truthy guid then ([Console logError (NoGuid name)], Return)
     else quiet (Continue guid)))"

text \<open>
  Lines 346-377 of \<^verbatim>\<open>checkStatus\<close>: what it makes of the body of a status
  answer. The template literal of line 354 converts the message and the
  result to strings before anything is printed. The object printed on failure
  is written out field by field, as in the source.
\<close>

definition checkStatus :: "string \<Rightarrow> post_data \<Rightarrow> jsval \<Rightarrow> string option logged" where
  "checkStatus name pd statusData =
     and_then (quiet (get_field statusData ''status'')) (\<lambda>status.
     if status = JStr ''1'' then quiet (Continue (Some ''success''))
     else
       and_then (quiet (get_field statusData ''result'')) (\<lambda>result.
       if result = JStr ''Pending in queue'' then quiet (Continue None)
       else
         and_then (quiet (bind_step (get_field statusData ''message'') to_string)) (\<lambda>messageText.
         and_then (quiet (bind_step (get_field statusData ''result'') to_string)) (\<lambda>resultText.
         ([Console logError (VerifyFailed name messageText resultText),
           Console logError (Payload
             \<lparr>apikey = Some ''XXXXXX'',
              module = ''contract'',
              action = ''verifysourcecode'',
              contractaddress = contractaddress pd,
              sourceCode = ''...'',
              codeformat = ''solidity-standard-json-input'',
              contractname = contractname pd,
              compilerversion = compilerversion pd,
              constructorArguements = constructorArguements pd,
              licenseType = licenseType pd\<rparr>)],
          Continue (Some ''failure''))))))"

text \<open>
  Lines 381-385: the loop \<^verbatim>\<open>while (!result)\<close>. Each round waits ten seconds,
  sends the status request and consumes one answer.
\<close>

fun poll :: "string \<Rightarrow> config \<Rightarrow> string \<Rightarrow> post_data \<Rightarrow> jsval \<Rightarrow> reply list \<Rightarrow> string option run" where
  "poll host cfg name pd guid [] =
     ([Delay 10000, CheckStatus host (etherscanApiKey cfg) guid], [], Hang)"
| "poll host cfg name pd guid (r # rs) =
     then_run ([Delay 10000], r # rs, Continue ()) (\<lambda>_ _.
     then_run (request (CheckStatus host (etherscanApiKey cfg) guid) (r # rs)) (\<lambda>statusData _.
     then_run (perform (checkStatus name pd statusData) rs) (\<lambda>result _.
     if truthy_str result then ([], rs, Continue result)
     else poll host cfg name pd guid rs)))"

text \<open>Lines 147-385: one pass of \<^verbatim>\<open>submit\<close> up to the result of the polling loop.\<close>

definition attempt ::
  "runtime \<Rightarrow> config \<Rightarrow> string \<Rightarrow> string \<Rightarrow> string \<Rightarrow> deployment \<Rightarrow> bool \<Rightarrow> reply list
     \<Rightarrow> string option run" where
  "attempt rt cfg host solcInputsPath name dep useSolcInput script =
     then_run (request (GetAbi host (address dep) (etherscanApiKey cfg)) script) (\<lambda>abiData s.
     then_run (perform (prepare rt cfg solcInputsPath name dep useSolcInput abiData) s) (\<lambda>postData s.
     then_run (request (Post host postData) s) (\<lambda>submissionData s.
     then_run (perform (submission_guid name submissionData) s) (\<lambda>guid s.
     then_run ([Console logInfo WaitingForResult], s, Continue ()) (\<lambda>_ s.
     poll host cfg name postData guid s)))))"

text \<open>An awaited call of \<^verbatim>\<open>submit\<close> that returns lets its caller go on.\<close>

fun awaited :: "'a run \<Rightarrow> unit run" where
  "awaited (t, s, Continue a) = (t, s, Continue ())"
| "awaited (t, s, Return) = (t, s, Continue ())"
| "awaited (t, s, Throw e) = (t, s, Throw e)"
| "awaited (t, s, Hang) = (t, s, Hang)"
| "awaited (t, s, Unmodelled) = (t, s, Unmodelled)"

text \<open>
  Lines 146-403: \<^verbatim>\<open>submit(name, useSolcInput)\<close>, with the call of itself on
  line 396.
\<close>

function submit ::
  "runtime \<Rightarrow> config \<Rightarrow> string \<Rightarrow> string \<Rightarrow> (string \<times> deployment) list \<Rightarrow> string \<Rightarrow> bool \<Rightarrow> reply list
     \<Rightarrow> unit run" where
  "submit rt cfg host solcInputsPath deployments name useSolcInput script =
     (case map_of deployments name of
        None \<Rightarrow> ([], script, Throw TypeError)
      | Some dep \<Rightarrow>
          then_run (attempt rt cfg host solcInputsPath name dep useSolcInput script) (\<lambda>result s.
          then_run ((if result = Some ''success'' then [Console logSuccess (NowVerified name)] else []),
                    s, Continue ()) (\<lambda>_ s.
          if result = Some ''failure'' then
            (if \<not> useSolcInput \<and> fallbackOnSolcInput cfg then
               then_run ([Console logInfo FallingBack], s, Continue ()) (\<lambda>_ s.
               then_run (awaited (submit rt cfg host solcInputsPath deployments name True s)) (\<lambda>_ s.
               ([], s, Return)))
             else ([Console logInfo Guidance], s, Return))
          else ([], s, Return))))"
  by pat_completeness auto
termination
  by (relation "measure (\<lambda>(rt, cfg, host, solcInputsPath, deployments, name, useSolcInput, script).
                           if useSolcInput then 0 else 1)") auto

declare submit.simps [simp del]

section \<open>The batch (lines 96-145 and 405-407)\<close>

text \<open>Lines 114-144: the \<^verbatim>\<open>switch\<close> on the chain id.\<close>

definition host_of :: "string \<Rightarrow> string option" where
  "host_of chainId =
     (if chainId = ''1'' then Some ''http://api.etherscan.io''
      else if chainId = ''3'' then Some ''http://api-ropsten.etherscan.io''
      else if chainId = ''4'' then Some ''http://api-rinkeby.etherscan.io''
      else if chainId = ''5'' then Some ''http://api-goerli.etherscan.io''
      else if chainId = ''42'' then Some ''http://api-kovan.etherscan.io''
      else if chainId = ''97'' then Some ''https://api-testnet.bscscan.com''
      else if chainId = ''56'' then Some ''https://api.bscscan.com''
      else if chainId = ''128'' then Some ''https://api.hecoinfo.com''
      else if chainId = ''256'' then Some ''https://api-testnet.hecoinfo.com''
      else None)"

text \<open>Lines 405-407: the contracts one after the other; an exception ends the batch.\<close>

fun submit_each ::
  "runtime \<Rightarrow> config \<Rightarrow> string \<Rightarrow> string \<Rightarrow> (string \<times> deployment) list \<Rightarrow> string list \<Rightarrow> reply list
     \<Rightarrow> unit run" where
  "submit_each rt cfg host solcInputsPath deployments [] script = ([], script, Return)"
| "submit_each rt cfg host solcInputsPath deployments (name # names) script =
     then_run (awaited (submit rt cfg host solcInputsPath deployments name False script)) (\<lambda>_ s.
     submit_each rt cfg host solcInputsPath deployments names s)"

definition submitSources ::
  "runtime \<Rightarrow> string \<Rightarrow> (string \<times> deployment) list \<Rightarrow> string \<Rightarrow> config \<Rightarrow> reply list \<Rightarrow> unit run" where
  "submitSources rt chainId deployments solcInputsPath cfg script =
     (case host_of chainId of
        None \<Rightarrow> ([Console logError (NetworkNotSupported chainId)], script, Return)
      | Some host \<Rightarrow>
          submit_each rt cfg host solcInputsPath deployments (map fst deployments) script)"

section \<open>A deployment and an explorer to run the program on\<close>

text \<open>
  One contract \<^verbatim>\<open>Foo\<close> of file \<^verbatim>\<open>A.sol\<close>, whose source carries the MIT
  identifier, and a runtime that parses the metadata of this contract.
\<close>

definition example_source :: string where
  "example_source = ''// SPDX-License-Identifier: MIT'' @ [CHR 0x0A] @ ''contract Foo {}''"

definition example_metadata :: jsval where
  "example_metadata =
     JObj [(''compiler'', JObj [(''version'', JStr ''0.7.6+commit.7338295f'')]),
           (''language'', JStr ''Solidity''),
           (''settings'',
              JObj [(''compilationTarget'', JObj [(''A.sol'', JStr ''Foo'')]),
                    (''optimizer'', JObj [(''enabled'', JBool False), (''runs'', JNum ''200'')])]),
           (''sources'',
              JObj [(''A.sol'', JObj [(''content'', JStr example_source),
                                      (''keccak256'', JStr ''0x1234'')])])]"

definition example_metadata_text :: string where
  \<open>example_metadata_text =
     ''{"compiler":{"version":"0.7.6+commit.7338295f"},"language":"Solidity",'' @
     ''"settings":{"compilationTarget":{"A.sol":"Foo"},"optimizer":{"enabled":false,"runs":200}},'' @
     ''"sources":{"A.sol":{"content":"// SPDX-License-Identifier: MIT'' @ [CHR 0x5C] @
     ''ncontract Foo {}","keccak256":"0x1234"}}}''\<close>

text \<open>The compiler input saved when the contract was deployed, as the file \<^verbatim>\<open>c0ffee.json\<close>.\<close>

definition example_solc_input :: jsval where
  "example_solc_input =
     JObj [(''language'', JStr ''Solidity''),
           (''sources'', JObj [(''A.sol'', JObj [(''content'', JStr example_source)])]),
           (''settings'', JObj [(''optimizer'', JObj [(''enabled'', JBool False), (''runs'', JNum ''200'')])])]"

definition example_solc_input_text :: string where
  \<open>example_solc_input_text =
     ''{"language":"Solidity","sources":{"A.sol":{"content":"// SPDX-License-Identifier: MIT'' @
     [CHR 0x5C] @ ''ncontract Foo {}"}},"settings":{"optimizer":{"enabled":false,"runs":200}}}''\<close>

text \<open>
  The metadata of the contract with a second compilation target, and without
  any.
\<close>

definition ambiguous_metadata :: jsval where
  "ambiguous_metadata =
     JObj [(''compiler'', JObj [(''version'', JStr ''0.7.6+commit.7338295f'')]),
           (''language'', JStr ''Solidity''),
           (''settings'',
              JObj [(''compilationTarget'', JObj [(''A.sol'', JStr ''Foo''), (''B.sol'', JStr ''Bar'')])]),
           (''sources'',
              JObj [(''A.sol'', JObj [(''content'', JStr example_source)]),
                    (''B.sol'', JObj [(''content'', JStr ''contract Bar {}'')])])]"

definition ambiguous_metadata_text :: string where
  \<open>ambiguous_metadata_text =
     ''{"compiler":{"version":"0.7.6+commit.7338295f"},"language":"Solidity",'' @
     ''"settings":{"compilationTarget":{"A.sol":"Foo","B.sol":"Bar"}},'' @
     ''"sources":{"A.sol":{"content":"// SPDX-License-Identifier: MIT'' @ [CHR 0x5C] @
     ''ncontract Foo {}"},"B.sol":{"content":"contract Bar {}"}}}''\<close>

definition untargeted_metadata :: jsval where
  "untargeted_metadata =
     JObj [(''compiler'', JObj [(''version'', JStr ''0.7.6+commit.7338295f'')]),
           (''language'', JStr ''Solidity''),
           (''settings'', JObj [(''optimizer'', JObj [(''enabled'', JBool False)])]),
           (''sources'', JObj [(''A.sol'', JObj [(''content'', JStr example_source)])])]"

definition untargeted_metadata_text :: string where
  \<open>untargeted_metadata_text =
     ''{"compiler":{"version":"0.7.6+commit.7338295f"},"language":"Solidity",'' @
     ''"settings":{"optimizer":{"enabled":false}},'' @
     ''"sources":{"A.sol":{"content":"// SPDX-License-Identifier: MIT'' @ [CHR 0x5C] @
     ''ncontract Foo {}"}}}''\<close>

definition example_runtime :: runtime where
  "example_runtime =
     \<lparr>JSON_parse = (\<lambda>s. if s = example_metadata_text then Some example_metadata
                        else if s = example_solc_input_text then Some example_solc_input
                        else if s = ambiguous_metadata_text then Some ambiguous_metadata
                        else if s = untargeted_metadata_text then Some untargeted_metadata
                        else None),
      JSON_stringify = (\<lambda>v. if v = example_solc_input then example_solc_input_text
                            else ''compiler input from the metadata''),
      matchAll = (\<lambda>v. if v = JStr example_source then Some [''MIT''] else Some []),
      abi_encode = (\<lambda>inputs values. Some ''0x''),
      readFileSync = (\<lambda>dir file. if dir = ''deployments/solcInputs'' \<and> file = ''c0ffee.json''
                                  then Some example_solc_input_text else None)\<rparr>"

definition example_config :: config where
  "example_config =
     \<lparr>etherscanApiKey = Some ''KEY'', license = None, fallbackOnSolcInput = False,
      forceLicense = False\<rparr>"

definition example_deployment :: deployment where
  "example_deployment =
     \<lparr>address = ''0x5FbDB2315678afecb367f032d93F642f64180aa3'',
      metadata = Some example_metadata_text,
      abi = [JObj [(''type'', JStr ''function''), (''name'', JStr ''f'')]],
      args = None,
      libraries = None,
      solcInputHash = Some ''c0ffee''\<rparr>"

text \<open>Answers of the explorer.\<close>

definition not_verified :: jsval where
  "not_verified =
     JObj [(''status'', JStr ''0''), (''message'', JStr ''NOTOK''),
           (''result'', JStr ''Contract source code not verified'')]"

definition submitted :: jsval where
  "submitted = JObj [(''status'', JStr ''1''), (''message'', JStr ''OK''), (''result'', JStr ''abc123'')]"

definition pending :: jsval where
  "pending =
     JObj [(''status'', JStr ''0''), (''message'', JStr ''NOTOK''), (''result'', JStr ''Pending in queue'')]"

definition verified :: jsval where
  "verified =
     JObj [(''status'', JStr ''1''), (''message'', JStr ''OK''), (''result'', JStr ''Pass - Verified'')]"

definition failed :: jsval where
  "failed =
     JObj [(''status'', JStr ''0''), (''message'', JStr ''NOTOK''),
           (''result'', JStr ''Fail - Unable to verify'')]"

text \<open>The payload built for the example contract.\<close>

definition example_payload :: post_data where
  "example_payload =
     \<lparr>apikey = Some ''KEY'', module = ''contract'', action = ''verifysourcecode'',
      contractaddress = ''0x5FbDB2315678afecb367f032d93F642f64180aa3'',
      sourceCode = ''compiler input from the metadata'', codeformat = ''solidity-standard-json-input'',
      contractname = ''A.sol:Foo'', compilerversion = ''v0.7.6+commit.7338295f'',
      constructorArguements = None, licenseType = 3\<rparr>"

section \<open>Events of a trace\<close>

text \<open>A step that only printed, and the events that are neither a \<^verbatim>\<open>getabi\<close> request nor a submission.\<close>

definition console_only :: "'a logged \<Rightarrow> bool" where
  "console_only m = list_all (\<lambda>e. case e of Console lv msg \<Rightarrow> True | _ \<Rightarrow> False) (fst m)"

definition other_event :: "event \<Rightarrow> bool" where
  "other_event e = (case e of GetAbi h a k \<Rightarrow> False | Post h pd \<Rightarrow> False | _ \<Rightarrow> True)"

text \<open>The number of passes of \<^verbatim>\<open>submit\<close> in a trace: each pass starts with its \<^verbatim>\<open>getabi\<close> request.\<close>

definition starts :: "event list \<Rightarrow> nat" where
  "starts t = length (filter (\<lambda>e. case e of GetAbi h a k \<Rightarrow> True | _ \<Rightarrow> False) t)"

text \<open>The events of a pass over the example contract that submits a payload and is told of a failure at once.\<close>

definition example_failing_pass :: "post_data \<Rightarrow> event list" where
  "example_failing_pass pd =
     [GetAbi ''http://api.etherscan.io'' ''0x5FbDB2315678afecb367f032d93F642f64180aa3'' (Some ''KEY''),
      Console logInfo (Verifying ''Foo'' ''0x5FbDB2315678afecb367f032d93F642f64180aa3''),
      Console logInfo NoArgs,
      Post ''http://api.etherscan.io'' pd,
      Console logInfo WaitingForResult,
      Delay 10000,
      CheckStatus ''http://api.etherscan.io'' (Some ''KEY'') (JStr ''abc123''),
      Console logError (VerifyFailed ''Foo'' ''NOTOK'' ''Fail - Unable to verify''),
      Console logError (Payload (pd\<lparr>apikey := Some ''XXXXXX'', sourceCode := ''...''\<rparr>))]"

section \<open>Reading the libraries of a compiler input\<close>







section \<open>Properties\<close>

subsection \<open>Sequencing\<close>

lemma and_then_Continue:
  "and_then m f = (l, Continue b) \<longleftrightarrow>
     (\<exists>l1 a l2. m = (l1, Continue a) \<and> f a = (l2, Continue b) \<and> l = l1 @ l2)"
proof (cases m)
  case (Pair l1 r)
  then show ?thesis
    by (cases r; cases "f (case r of Continue a \<Rightarrow> a)") auto
qed


lemma build_payload_licenseType:
  "build_payload rt cfg solcInputsPath name dep useSolcInput meta contractNamePath code = (l, Continue pd)
     \<Longrightarrow> licenseType pd = code"
  unfolding build_payload_def and_then_Continue quiet_def by auto

lemma example_front:
  "front example_runtime ''Foo'' example_deployment not_verified =
     ([], Continue (example_metadata, ''A.sol'', ''A.sol:Foo'', Some ''MIT''))"
  by code_simp

subsection \<open>The license override\<close>

text \<open>
  C1. Let the license found in the source of a contract be MIT and the
  license given by the user be GPL-3.0. Without \<^verbatim>\<open>forceLicense\<close> the license
  stage prints the mismatch and returns, and the whole pass over the contract
  consists of the \<^verbatim>\<open>getabi\<close> request, what was printed before, and the
  mismatch: nothing is submitted. With \<^verbatim>\<open>forceLicense\<close> the effective license
  is GPL-3.0 with code 5, and 5 is the \<^verbatim>\<open>licenseType\<close> of any payload built.
\<close>

theorem license_override_mismatch:
  assumes "front rt name dep abiData = (l, Continue (meta, path, contractNamePath, Some ''MIT''))"
    and "license cfg = Some ''GPL-3.0''"
  shows "if forceLicense cfg
         then resolve_license cfg name contractNamePath (Some ''MIT'') =
                ([], Continue (Some ''GPL-3.0'', 5)) \<and>
              (\<forall>l' pd. prepare rt cfg solcInputsPath name dep useSolcInput abiData = (l', Continue pd)
                 \<longrightarrow> licenseType pd = 5)
         else resolve_license cfg name contractNamePath (Some ''MIT'') =
                ([Console logError (LicenseMismatch (Some ''GPL-3.0'') name (Some ''MIT''))], Return) \<and>
              attempt rt cfg host solcInputsPath name dep useSolcInput (Reply abiData # script) =
                (GetAbi host (address dep) (etherscanApiKey cfg) # l @
                   [Console logError (LicenseMismatch (Some ''GPL-3.0'') name (Some ''MIT''))],
                 script, Return)"
proof (cases "forceLicense cfg")
  case True
  have r: "resolve_license cfg name contractNamePath (Some ''MIT'') = ([], Continue (Some ''GPL-3.0'', 5))"
    using True assms(2)
    by (simp add: resolve_license_def check_license_type_def license_type_of_def getLicenseType_def quiet_def)
  have "licenseType pd = 5"
    if "prepare rt cfg solcInputsPath name dep useSolcInput abiData = (l', Continue pd)" for l' pd
    using that build_payload_licenseType [of rt cfg solcInputsPath name dep useSolcInput meta contractNamePath 5 _ pd]
    by (auto simp add: prepare_def assms(1) r and_then_Continue simp del: and_then.simps)
  with r True show ?thesis by simp
next
  case False
  have r: "resolve_license cfg name contractNamePath (Some ''MIT'') =
             ([Console logError (LicenseMismatch (Some ''GPL-3.0'') name (Some ''MIT''))], Return)"
    using False assms(2) by (simp add: resolve_license_def)
  have "prepare rt cfg solcInputsPath name dep useSolcInput abiData =
          (l @ [Console logError (LicenseMismatch (Some ''GPL-3.0'') name (Some ''MIT''))], Return)"
    by (simp add: prepare_def assms(1) r)
  then show ?thesis using False r by (simp add: attempt_def perform_def)
qed

theorem license_override_mismatch_witness:
  "attempt example_runtime (example_config\<lparr>license := Some ''GPL-3.0''\<rparr>) ''http://api.etherscan.io''
     ''deployments/solcInputs'' ''Foo'' example_deployment False [Reply not_verified] =
     ([GetAbi ''http://api.etherscan.io'' (address example_deployment) (Some ''KEY''),
       Console logError (LicenseMismatch (Some ''GPL-3.0'') ''Foo'' (Some ''MIT''))], [], Return) \<and>
   resolve_license (example_config\<lparr>license := Some ''GPL-3.0'', forceLicense := True\<rparr>)
     ''Foo'' ''A.sol:Foo'' (Some ''MIT'') = ([], Continue (Some ''GPL-3.0'', 5)) \<and>
   (\<exists>l pd. prepare example_runtime (example_config\<lparr>license := Some ''GPL-3.0'', forceLicense := True\<rparr>)
              ''deployments/solcInputs'' ''Foo'' example_deployment False not_verified = (l, Continue pd) \<and>
            licenseType pd = 5)"
proof -
  have "snd (prepare example_runtime (example_config\<lparr>license := Some ''GPL-3.0'', forceLicense := True\<rparr>)
               ''deployments/solcInputs'' ''Foo'' example_deployment False not_verified) =
          Continue \<lparr>apikey = Some ''KEY'', module = ''contract'', action = ''verifysourcecode'',
            contractaddress = ''0x5FbDB2315678afecb367f032d93F642f64180aa3'',
            sourceCode = ''compiler input from the metadata'', codeformat = ''solidity-standard-json-input'',
            contractname = ''A.sol:Foo'', compilerversion = ''v0.7.6+commit.7338295f'',
            constructorArguements = None, licenseType = 5\<rparr>"
    by code_simp
  then have p: "\<exists>l pd. prepare example_runtime
               (example_config\<lparr>license := Some ''GPL-3.0'', forceLicense := True\<rparr>)
               ''deployments/solcInputs'' ''Foo'' example_deployment False not_verified = (l, Continue pd)"
    by (metis prod.collapse)
  show ?thesis
    using p
      license_override_mismatch [OF example_front, of "example_config\<lparr>license := Some ''GPL-3.0''\<rparr>"
        "''deployments/solcInputs''" False "''http://api.etherscan.io''" "[]"]
      license_override_mismatch [OF example_front,
        of "example_config\<lparr>license := Some ''GPL-3.0'', forceLicense := True\<rparr>"
        "''deployments/solcInputs''" False]
    by (auto simp add: example_config_def example_deployment_def)
qed

subsection \<open>The status of a verification job\<close>

lemma example_prepare:
  "prepare example_runtime example_config ''deployments/solcInputs'' ''Foo'' example_deployment False
     not_verified =
     ([Console logInfo (Verifying ''Foo'' ''0x5FbDB2315678afecb367f032d93F642f64180aa3''),
       Console logInfo NoArgs], Continue example_payload)"
  by code_simp

lemma build_payload_constants:
  "build_payload rt cfg solcInputsPath name dep useSolcInput meta contractNamePath code = (l, Continue pd)
     \<Longrightarrow> module pd = ''contract'' \<and> action pd = ''verifysourcecode'' \<and>
         codeformat pd = ''solidity-standard-json-input''"
  unfolding build_payload_def and_then_Continue quiet_def by auto

lemma prepare_Continue:
  assumes "prepare rt cfg solcInputsPath name dep useSolcInput abiData = (l, Continue pd)"
  shows "\<exists>l1 meta path contractNamePath sourceLicenseType l2 lic code l3.
           front rt name dep abiData = (l1, Continue (meta, path, contractNamePath, sourceLicenseType)) \<and>
           resolve_license cfg name contractNamePath sourceLicenseType = (l2, Continue (lic, code)) \<and>
           build_payload rt cfg solcInputsPath name dep useSolcInput meta contractNamePath code =
             (l3, Continue pd) \<and>
           l = l1 @ l2 @ l3"
  using assms unfolding prepare_def
  by (auto simp add: and_then_Continue simp del: and_then.simps)

lemma prepare_payload_constants:
  assumes "prepare rt cfg solcInputsPath name dep useSolcInput abiData = (l, Continue pd)"
  shows "module pd = ''contract'' \<and> action pd = ''verifysourcecode'' \<and>
         codeformat pd = ''solidity-standard-json-input''"
  using prepare_Continue [OF assms] build_payload_constants by blast

lemma to_string_cases:
  "(\<exists>s. to_string v = Continue s) \<or> to_string v = Throw TypeError"
  "(\<exists>s. join_elems vs = Continue s) \<or> join_elems vs = Throw TypeError"
  by (induction v and vs rule: to_string_join_elems.induct) auto

text \<open>
  C2, as stated, fails. An answer to the status request whose body is
  \<^verbatim>\<open>null\<close> is none of the three: reading its \<^verbatim>\<open>status\<close> throws, nothing is
  printed, and the exception leaves \<^verbatim>\<open>submitSources\<close>, so that the next
  contract is not looked at.
\<close>

theorem null_status_counterexample:
  "checkStatus ''Foo'' example_payload JNull = ([], Throw TypeError) \<and>
   submitSources example_runtime ''1'' [(''Foo'', example_deployment), (''Bar'', example_deployment)]
     ''deployments/solcInputs'' example_config
     [Reply not_verified, Reply submitted, Reply JNull, Reply not_verified] =
     ([GetAbi ''http://api.etherscan.io'' ''0x5FbDB2315678afecb367f032d93F642f64180aa3'' (Some ''KEY''),
       Console logInfo (Verifying ''Foo'' ''0x5FbDB2315678afecb367f032d93F642f64180aa3''),
       Console logInfo NoArgs,
       Post ''http://api.etherscan.io'' example_payload,
       Console logInfo WaitingForResult,
       Delay 10000,
       CheckStatus ''http://api.etherscan.io'' (Some ''KEY'') (JStr ''abc123'')],
      [Reply not_verified], Throw TypeError)"
  by code_simp

text \<open>
  C2, amended. An answer whose body is \<^verbatim>\<open>null\<close> or \<^verbatim>\<open>undefined\<close> makes the
  poll throw. For any other answer: if its \<^verbatim>\<open>status\<close> is the string 1 the
  polling ends with success. Otherwise, if its \<^verbatim>\<open>result\<close> is exactly
  \<^verbatim>\<open>Pending in queue\<close>, nothing ends: the loop goes on with its next round,
  which starts with the delay of ten seconds. Otherwise, if its message and
  result can be converted to strings, the polling ends with failure, after
  printing these two and the submitted payload with the API key replaced by
  \<^verbatim>\<open>XXXXXX\<close> and the source code by three dots; if one of them cannot be
  converted, the poll throws and nothing is printed. These cases are all
  there are: the three properties of an answer that is not \<^verbatim>\<open>null\<close> or
  \<^verbatim>\<open>undefined\<close> can be read, and a conversion to a string yields the string
  or throws.
\<close>

theorem status_classification:
  assumes "prepare rt cfg solcInputsPath name dep useSolcInput abiData = (l, Continue pd)"
  shows "(nullish statusData \<longrightarrow>
            checkStatus name pd statusData = ([], Throw TypeError) \<and>
            poll host cfg name pd guid (Reply statusData # rs) =
              ([Delay 10000, CheckStatus host (etherscanApiKey cfg) guid], rs, Throw TypeError)) \<and>
         (\<forall>status result message.
            get_field statusData ''status'' = Continue status \<and>
            get_field statusData ''result'' = Continue result \<and>
            get_field statusData ''message'' = Continue message \<longrightarrow>
            (status = JStr ''1'' \<longrightarrow>
               checkStatus name pd statusData = ([], Continue (Some ''success'')) \<and>
               poll host cfg name pd guid (Reply statusData # rs) =
                 ([Delay 10000, CheckStatus host (etherscanApiKey cfg) guid], rs,
                  Continue (Some ''success''))) \<and>
            (status \<noteq> JStr ''1'' \<and> result = JStr ''Pending in queue'' \<longrightarrow>
               checkStatus name pd statusData = ([], Continue None) \<and>
               poll host cfg name pd guid (Reply statusData # rs) =
                 (Delay 10000 # CheckStatus host (etherscanApiKey cfg) guid #
                    fst (poll host cfg name pd guid rs),
                  snd (poll host cfg name pd guid rs))) \<and>
            (status \<noteq> JStr ''1'' \<and> result \<noteq> JStr ''Pending in queue'' \<longrightarrow>
               (\<forall>messageText resultText.
                  to_string message = Continue messageText \<and> to_string result = Continue resultText \<longrightarrow>
                  checkStatus name pd statusData =
                    ([Console logError (VerifyFailed name messageText resultText),
                      Console logError (Payload (pd\<lparr>apikey := Some ''XXXXXX'', sourceCode := ''...''\<rparr>))],
                     Continue (Some ''failure'')) \<and>
                  poll host cfg name pd guid (Reply statusData # rs) =
                    ([Delay 10000, CheckStatus host (etherscanApiKey cfg) guid,
                      Console logError (VerifyFailed name messageText resultText),
                      Console logError (Payload (pd\<lparr>apikey := Some ''XXXXXX'', sourceCode := ''...''\<rparr>))],
                     rs, Continue (Some ''failure''))) \<and>
               (to_string message = Throw TypeError \<or> to_string result = Throw TypeError \<longrightarrow>
                  checkStatus name pd statusData = ([], Throw TypeError) \<and>
                  poll host cfg name pd guid (Reply statusData # rs) =
                    ([Delay 10000, CheckStatus host (etherscanApiKey cfg) guid], rs, Throw TypeError)))) \<and>
         (\<not> nullish statusData \<longrightarrow>
            (\<exists>status result message.
               get_field statusData ''status'' = Continue status \<and>
               get_field statusData ''result'' = Continue result \<and>
               get_field statusData ''message'' = Continue message \<and>
               ((\<exists>s. to_string message = Continue s) \<or> to_string message = Throw TypeError) \<and>
               ((\<exists>s. to_string result = Continue s) \<or> to_string result = Throw TypeError)))"
proof -
  have c: "module pd = ''contract''" "action pd = ''verifysourcecode''"
    "codeformat pd = ''solidity-standard-json-input''"
    using prepare_payload_constants [OF assms(1)] by simp_all
  have red: "\<lparr>apikey = Some ''XXXXXX'', module = ''contract'', action = ''verifysourcecode'',
      contractaddress = contractaddress pd, sourceCode = ''...'',
      codeformat = ''solidity-standard-json-input'', contractname = contractname pd,
      compilerversion = compilerversion pd, constructorArguements = constructorArguements pd,
      licenseType = licenseType pd\<rparr> = pd\<lparr>apikey := Some ''XXXXXX'', sourceCode := ''...''\<rparr>"
    using c by (cases pd) simp
  have p: "poll host cfg name pd guid (Reply statusData # rs) =
             (Delay 10000 # CheckStatus host (etherscanApiKey cfg) guid # ev,
              rs, r)"
    if "checkStatus name pd statusData = (ev, r)" "r = Throw e \<or> r = Continue (Some ''success'') \<or> r = Continue (Some ''failure'')"
    for ev r e
    using that by (auto simp add: perform_def)
  have n: "checkStatus name pd statusData = ([], Throw TypeError)" if "nullish statusData"
    using that by (cases statusData) (simp_all add: checkStatus_def quiet_def)
  have part1: "nullish statusData \<longrightarrow>
            checkStatus name pd statusData = ([], Throw TypeError) \<and>
            poll host cfg name pd guid (Reply statusData # rs) =
              ([Delay 10000, CheckStatus host (etherscanApiKey cfg) guid], rs, Throw TypeError)"
    using n p [of "[]" "Throw TypeError" TypeError] by simp
  have part2: "(status = JStr ''1'' \<longrightarrow>
               checkStatus name pd statusData = ([], Continue (Some ''success'')) \<and>
               poll host cfg name pd guid (Reply statusData # rs) =
                 ([Delay 10000, CheckStatus host (etherscanApiKey cfg) guid], rs,
                  Continue (Some ''success''))) \<and>
            (status \<noteq> JStr ''1'' \<and> result = JStr ''Pending in queue'' \<longrightarrow>
               checkStatus name pd statusData = ([], Continue None) \<and>
               poll host cfg name pd guid (Reply statusData # rs) =
                 (Delay 10000 # CheckStatus host (etherscanApiKey cfg) guid #
                    fst (poll host cfg name pd guid rs),
                  snd (poll host cfg name pd guid rs))) \<and>
            (status \<noteq> JStr ''1'' \<and> result \<noteq> JStr ''Pending in queue'' \<longrightarrow>
               (\<forall>messageText resultText.
                  to_string message = Continue messageText \<and> to_string result = Continue resultText \<longrightarrow>
                  checkStatus name pd statusData =
                    ([Console logError (VerifyFailed name messageText resultText),
                      Console logError (Payload (pd\<lparr>apikey := Some ''XXXXXX'', sourceCode := ''...''\<rparr>))],
                     Continue (Some ''failure'')) \<and>
                  poll host cfg name pd guid (Reply statusData # rs) =
                    ([Delay 10000, CheckStatus host (etherscanApiKey cfg) guid,
                      Console logError (VerifyFailed name messageText resultText),
                      Console logError (Payload (pd\<lparr>apikey := Some ''XXXXXX'', sourceCode := ''...''\<rparr>))],
                     rs, Continue (Some ''failure''))) \<and>
               (to_string message = Throw TypeError \<or> to_string result = Throw TypeError \<longrightarrow>
                  checkStatus name pd statusData = ([], Throw TypeError) \<and>
                  poll host cfg name pd guid (Reply statusData # rs) =
                    ([Delay 10000, CheckStatus host (etherscanApiKey cfg) guid], rs, Throw TypeError)))"
    if g: "get_field statusData ''status'' = Continue status"
      "get_field statusData ''result'' = Continue result"
      "get_field statusData ''message'' = Continue message"
    for status result message
  proof -
    have s1: "status = JStr ''1'' \<Longrightarrow> checkStatus name pd statusData = ([], Continue (Some ''success''))"
      by (simp add: checkStatus_def g quiet_def)
    have s2: "status \<noteq> JStr ''1'' \<Longrightarrow> result = JStr ''Pending in queue'' \<Longrightarrow>
        checkStatus name pd statusData = ([], Continue None)"
      by (simp add: checkStatus_def g quiet_def)
    have s3: "checkStatus name pd statusData =
          ([Console logError (VerifyFailed name messageText resultText),
            Console logError (Payload (pd\<lparr>apikey := Some ''XXXXXX'', sourceCode := ''...''\<rparr>))],
           Continue (Some ''failure''))"
      if "status \<noteq> JStr ''1''" "result \<noteq> JStr ''Pending in queue''"
        "to_string message = Continue messageText" "to_string result = Continue resultText"
      for messageText resultText
      using that by (simp add: checkStatus_def g quiet_def red)
    have s4: "checkStatus name pd statusData = ([], Throw TypeError)"
      if "status \<noteq> JStr ''1''" "result \<noteq> JStr ''Pending in queue''"
        "to_string message = Throw TypeError \<or> to_string result = Throw TypeError"
      using that to_string_cases(1) [of message]
      by (auto simp add: checkStatus_def g quiet_def)
    have p2: "poll host cfg name pd guid (Reply statusData # rs) =
                 (Delay 10000 # CheckStatus host (etherscanApiKey cfg) guid #
                    fst (poll host cfg name pd guid rs),
                  snd (poll host cfg name pd guid rs))"
      if "checkStatus name pd statusData = ([], Continue None)"
      using that by (simp add: perform_def)
    have a: "status = JStr ''1'' \<longrightarrow>
               checkStatus name pd statusData = ([], Continue (Some ''success'')) \<and>
               poll host cfg name pd guid (Reply statusData # rs) =
                 ([Delay 10000, CheckStatus host (etherscanApiKey cfg) guid], rs,
                  Continue (Some ''success''))"
      using s1 p [of "[]" "Continue (Some ''success'')"] by (simp del: poll.simps)
    have b: "status \<noteq> JStr ''1'' \<and> result = JStr ''Pending in queue'' \<longrightarrow>
               checkStatus name pd statusData = ([], Continue None) \<and>
               poll host cfg name pd guid (Reply statusData # rs) =
                 (Delay 10000 # CheckStatus host (etherscanApiKey cfg) guid #
                    fst (poll host cfg name pd guid rs),
                  snd (poll host cfg name pd guid rs))"
      using s2 p2 by (simp del: poll.simps)
    have c1: "checkStatus name pd statusData =
                    ([Console logError (VerifyFailed name messageText resultText),
                      Console logError (Payload (pd\<lparr>apikey := Some ''XXXXXX'', sourceCode := ''...''\<rparr>))],
                     Continue (Some ''failure'')) \<and>
                  poll host cfg name pd guid (Reply statusData # rs) =
                    ([Delay 10000, CheckStatus host (etherscanApiKey cfg) guid,
                      Console logError (VerifyFailed name messageText resultText),
                      Console logError (Payload (pd\<lparr>apikey := Some ''XXXXXX'', sourceCode := ''...''\<rparr>))],
                     rs, Continue (Some ''failure''))"
      if "status \<noteq> JStr ''1''" "result \<noteq> JStr ''Pending in queue''"
        "to_string message = Continue messageText" "to_string result = Continue resultText"
      for messageText resultText
    proof -
      note e = s3 [OF that]
      from p [OF e] e show ?thesis by (simp del: poll.simps)
    qed
    have c2: "checkStatus name pd statusData = ([], Throw TypeError) \<and>
                  poll host cfg name pd guid (Reply statusData # rs) =
                    ([Delay 10000, CheckStatus host (etherscanApiKey cfg) guid], rs, Throw TypeError)"
      if "status \<noteq> JStr ''1''" "result \<noteq> JStr ''Pending in queue''"
        "to_string message = Throw TypeError \<or> to_string result = Throw TypeError"
    proof -
      note e = s4 [OF that]
      from p [OF e] e show ?thesis by (simp del: poll.simps)
    qed
    from a b c1 c2 show ?thesis by blast
  qed
  have part3: "\<not> nullish statusData \<longrightarrow>
            (\<exists>status result message.
               get_field statusData ''status'' = Continue status \<and>
               get_field statusData ''result'' = Continue result \<and>
               get_field statusData ''message'' = Continue message \<and>
               ((\<exists>s. to_string message = Continue s) \<or> to_string message = Throw TypeError) \<and>
               ((\<exists>s. to_string result = Continue s) \<or> to_string result = Throw TypeError))"
  proof
    assume nn: "\<not> nullish statusData"
    have r: "\<exists>v. get_field statusData k = Continue v" for k
      using nn by (cases statusData) simp_all
    from r obtain status where g1: "get_field statusData ''status'' = Continue status" by blast
    from r obtain result where g2: "get_field statusData ''result'' = Continue result" by blast
    from r obtain message where g3: "get_field statusData ''message'' = Continue message" by blast
    from g1 g2 g3 to_string_cases(1) [of message] to_string_cases(1) [of result]
    show "\<exists>status result message.
               get_field statusData ''status'' = Continue status \<and>
               get_field statusData ''result'' = Continue result \<and>
               get_field statusData ''message'' = Continue message \<and>
               ((\<exists>s. to_string message = Continue s) \<or> to_string message = Throw TypeError) \<and>
               ((\<exists>s. to_string result = Continue s) \<or> to_string result = Throw TypeError)"
      by blast
  qed
  from part1 part2 part3 show ?thesis by blast
qed

theorem status_classification_witness:
  "poll ''http://api.etherscan.io'' example_config ''Foo'' example_payload (JStr ''abc123'')
     [Reply pending, Reply verified] =
     ([Delay 10000, CheckStatus ''http://api.etherscan.io'' (Some ''KEY'') (JStr ''abc123''),
       Delay 10000, CheckStatus ''http://api.etherscan.io'' (Some ''KEY'') (JStr ''abc123'')],
      [], Continue (Some ''success'')) \<and>
   poll ''http://api.etherscan.io'' example_config ''Foo'' example_payload (JStr ''abc123'')
     [Reply failed] =
     ([Delay 10000, CheckStatus ''http://api.etherscan.io'' (Some ''KEY'') (JStr ''abc123''),
       Console logError (VerifyFailed ''Foo'' ''NOTOK'' ''Fail - Unable to verify''),
       Console logError (Payload (example_payload\<lparr>apikey := Some ''XXXXXX'', sourceCode := ''...''\<rparr>))],
      [], Continue (Some ''failure'')) \<and>
   poll ''http://api.etherscan.io'' example_config ''Foo'' example_payload (JStr ''abc123'')
     [Reply JNull, Reply verified] =
     ([Delay 10000, CheckStatus ''http://api.etherscan.io'' (Some ''KEY'') (JStr ''abc123'')],
      [Reply verified], Throw TypeError)"
proof -
  have p: "get_field pending ''status'' = Continue (JStr ''0'') \<and>
    get_field pending ''result'' = Continue (JStr ''Pending in queue'') \<and>
    get_field pending ''message'' = Continue (JStr ''NOTOK'')"
    by (simp add: pending_def)
  have v: "get_field verified ''status'' = Continue (JStr ''1'') \<and>
    get_field verified ''result'' = Continue (JStr ''Pass - Verified'') \<and>
    get_field verified ''message'' = Continue (JStr ''OK'')"
    by (simp add: verified_def)
  have f: "get_field failed ''status'' = Continue (JStr ''0'') \<and>
    get_field failed ''result'' = Continue (JStr ''Fail - Unable to verify'') \<and>
    get_field failed ''message'' = Continue (JStr ''NOTOK'')"
    by (simp add: failed_def)
  have t: "to_string (JStr ''NOTOK'') = Continue ''NOTOK'' \<and>
    to_string (JStr ''Fail - Unable to verify'') = Continue ''Fail - Unable to verify''"
    by simp
  note on_pending = status_classification [OF example_prepare, THEN conjunct2, THEN conjunct1, rule_format, OF p,
      where host = "''http://api.etherscan.io''" and guid = "JStr ''abc123''" and rs = "[Reply verified]"]
  note on_verified = status_classification [OF example_prepare, THEN conjunct2, THEN conjunct1, rule_format, OF v,
      where host = "''http://api.etherscan.io''" and guid = "JStr ''abc123''" and rs = "[]"]
  note on_failed = status_classification [OF example_prepare, THEN conjunct2, THEN conjunct1, rule_format, OF f,
      where host = "''http://api.etherscan.io''" and guid = "JStr ''abc123''" and rs = "[]"]
  note on_null = status_classification [OF example_prepare, THEN conjunct1, rule_format,
      where statusData = JNull and host = "''http://api.etherscan.io''" and guid = "JStr ''abc123''"
        and rs = "[Reply verified]"]
  from on_verified have v': "poll ''http://api.etherscan.io'' example_config ''Foo'' example_payload
      (JStr ''abc123'') [Reply verified] =
      ([Delay 10000, CheckStatus ''http://api.etherscan.io'' (Some ''KEY'') (JStr ''abc123'')],
       [], Continue (Some ''success''))"
    by (simp add: example_config_def del: poll.simps)
  from on_pending v' have c1: "poll ''http://api.etherscan.io'' example_config ''Foo'' example_payload
      (JStr ''abc123'') [Reply pending, Reply verified] =
     ([Delay 10000, CheckStatus ''http://api.etherscan.io'' (Some ''KEY'') (JStr ''abc123''),
       Delay 10000, CheckStatus ''http://api.etherscan.io'' (Some ''KEY'') (JStr ''abc123'')],
      [], Continue (Some ''success''))"
    by (simp add: example_config_def del: poll.simps)
  from on_failed t have c2: "poll ''http://api.etherscan.io'' example_config ''Foo'' example_payload
      (JStr ''abc123'') [Reply failed] =
     ([Delay 10000, CheckStatus ''http://api.etherscan.io'' (Some ''KEY'') (JStr ''abc123''),
       Console logError (VerifyFailed ''Foo'' ''NOTOK'' ''Fail - Unable to verify''),
       Console logError (Payload (example_payload\<lparr>apikey := Some ''XXXXXX'', sourceCode := ''...''\<rparr>))],
      [], Continue (Some ''failure''))"
    by (simp add: example_config_def del: poll.simps)
  from on_null have c3: "poll ''http://api.etherscan.io'' example_config ''Foo'' example_payload
      (JStr ''abc123'') [Reply JNull, Reply verified] =
     ([Delay 10000, CheckStatus ''http://api.etherscan.io'' (Some ''KEY'') (JStr ''abc123'')],
      [Reply verified], Throw TypeError)"
    by (simp add: example_config_def del: poll.simps)
  from c1 c2 c3 show ?thesis by (intro conjI)
qed

subsection \<open>Where requests occur in a trace\<close>

lemma console_only_quiet [simp]: "console_only (quiet s)"
  by (simp add: console_only_def quiet_def)

lemma console_only_nil [simp]: "console_only ([], r)"
  by (simp add: console_only_def)

lemma console_only_cons [simp]: "console_only (Console lv msg # l, r) = console_only (l, r)"
  by (simp add: console_only_def)

lemma console_only_and_then:
  assumes "console_only m" and "\<And>a. console_only (f a)"
  shows "console_only (and_then m f)"
proof (cases m)
  case (Pair l r)
  with assms show ?thesis by (cases r) (auto simp add: console_only_def)
qed

lemma console_only_check_verified: "console_only (check_verified rt name addr abiData)"
  unfolding check_verified_def
  by (intro console_only_and_then) (auto split: step.splits)

lemma console_only_parse_metadata: "console_only (parse_metadata rt name m)"
  unfolding parse_metadata_def by (auto split: option.splits)

lemma console_only_compilation_target: "console_only (compilation_target name meta)"
  unfolding compilation_target_def
  by (intro console_only_and_then) (auto split: option.splits)

lemma console_only_front: "console_only (front rt name dep abiData)"
  unfolding front_def
  by (intro console_only_and_then console_only_check_verified console_only_parse_metadata
      console_only_compilation_target) (auto simp add: Let_def intro!: console_only_and_then)

lemma console_only_check_license_type: "console_only (check_license_type lic)"
  unfolding check_license_type_def by (auto split: option.splits)

lemma console_only_resolve_license: "console_only (resolve_license cfg name cnp src)"
  unfolding resolve_license_def by (auto simp add: Let_def console_only_check_license_type)

lemma console_only_read_solc_input: "console_only (read_solc_input rt p name dep)"
  unfolding read_solc_input_def by (auto simp add: Let_def split: option.splits)

lemma console_only_constructor_arguments: "console_only (constructor_arguments rt dep)"
  unfolding constructor_arguments_def by (auto split: option.splits)

lemma console_only_build_payload:
  "console_only (build_payload rt cfg p name dep u meta cnp code)"
  unfolding build_payload_def
  by (intro console_only_and_then console_only_constructor_arguments)
     (auto simp add: console_only_read_solc_input)

lemma console_only_prepare: "console_only (prepare rt cfg p name dep u abiData)"
  unfolding prepare_def
  by (intro console_only_and_then console_only_front)
     (auto intro!: console_only_and_then console_only_resolve_license console_only_build_payload)

lemma console_only_submission_guid: "console_only (submission_guid name d)"
  unfolding submission_guid_def
  by (intro console_only_and_then) (auto intro!: console_only_and_then)

lemma console_only_checkStatus: "console_only (checkStatus name pd d)"
  unfolding checkStatus_def
  by (intro console_only_and_then) (auto intro!: console_only_and_then)

lemma other_event_simps [simp]:
  "other_event (Console lv msg)" "other_event (Delay n)" "other_event (CheckStatus h k g)"
  "\<not> other_event (GetAbi h a k)" "\<not> other_event (Post h pd)"
  by (simp_all add: other_event_def)

lemma console_only_other: "console_only m \<Longrightarrow> list_all other_event (fst m)"
  unfolding console_only_def list_all_iff by (auto simp add: other_event_def split: event.splits)

lemma fst_then_run:
  "fst (then_run (t, s, r) f) = t @ (case r of Continue a \<Rightarrow> fst (f a s) | _ \<Rightarrow> [])"
  by (cases r) simp_all

lemma fst_perform [simp]: "fst (perform m s) = fst m"
  by (simp add: perform_def)

lemma then_run_perform:
  "fst (then_run (perform m s) f) = fst m @ (case snd m of Continue a \<Rightarrow> fst (f a s) | _ \<Rightarrow> [])"
  by (cases m) (simp add: perform_def fst_then_run)

lemma poll_events: "list_all other_event (fst (poll host cfg name pd guid script))"
proof (induction script)
  case Nil
  show ?case by simp
next
  case (Cons r rs)
  show ?case
  proof (cases r)
    case (Reply d)
    obtain l res where c: "checkStatus name pd d = (l, res)" by (cases "checkStatus name pd d")
    have "list_all other_event l"
      using console_only_other [OF console_only_checkStatus [of name pd d]] c by simp
    with Cons Reply c show ?thesis
      by (cases res) (simp_all add: perform_def)
  next
    case Fails
    then show ?thesis by simp
  qed
qed

lemma after_post_events:
  "list_all other_event
     (fst (then_run (perform (submission_guid name d) s) (\<lambda>guid s.
           then_run ([Console logInfo WaitingForResult], s, Continue ()) (\<lambda>_ s.
           poll host cfg name pd guid s))))"
  using console_only_other [OF console_only_submission_guid [of name d]]
  by (simp add: then_run_perform poll_events split: step.splits)

lemma attempt_trace:
  "\<exists>rest. fst (attempt rt cfg host p name dep u script) =
            GetAbi host (address dep) (etherscanApiKey cfg) # rest \<and>
          (list_all other_event rest \<or>
           (\<exists>l abiData pd rest'. prepare rt cfg p name dep u abiData = (l, Continue pd) \<and>
              rest = l @ Post host pd # rest' \<and> list_all other_event rest'))"
proof (cases script)
  case Nil
  then show ?thesis by (simp add: attempt_def)
next
  case (Cons r rs)
  show ?thesis
  proof (cases r)
    case Fails
    with Cons show ?thesis by (simp add: attempt_def)
  next
    case (Reply abiData)
    obtain l res where pr: "prepare rt cfg p name dep u abiData = (l, res)"
      by (cases "prepare rt cfg p name dep u abiData")
    have l: "list_all other_event l"
      using console_only_other [OF console_only_prepare [of rt cfg p name dep u abiData]] pr by simp
    show ?thesis
    proof (cases res)
      case (Continue pd)
      have "\<exists>rest'. fst (attempt rt cfg host p name dep u script) =
              GetAbi host (address dep) (etherscanApiKey cfg) # l @ Post host pd # rest' \<and>
              list_all other_event rest'"
      proof (cases rs)
        case Nil
        with Cons Reply pr Continue show ?thesis by (simp add: attempt_def perform_def)
      next
        case (Cons r' rs')
        show ?thesis
        proof (cases r')
          case Fails
          with Cons \<open>script = r # rs\<close> Reply pr Continue show ?thesis
            by (simp add: attempt_def perform_def)
        next
          case (Reply d)
          with Cons \<open>script = r # rs\<close> \<open>r = Reply abiData\<close> pr Continue
          show ?thesis
            using after_post_events [of name d rs' host cfg pd]
            by (simp add: attempt_def perform_def)
        qed
      qed
      with pr Continue show ?thesis by blast
    qed (use Cons Reply pr l in \<open>simp_all add: attempt_def perform_def\<close>)
  qed
qed

subsection \<open>The license type of a submission\<close>

lemma getLicenseType_range: "getLicenseType lic = Some n \<Longrightarrow> 1 \<le> n \<and> n \<le> 13"
  by (auto simp add: getLicenseType_def split: if_splits)

lemma check_license_type_Continue:
  "check_license_type lic = (l, Continue (lic', code)) \<Longrightarrow>
     lic' = lic \<and> license_type_of lic = Some code"
  by (auto simp add: check_license_type_def quiet_def split: option.splits if_splits)

lemma resolve_license_Continue:
  assumes "resolve_license cfg name cnp src = (l, Continue (lic, code))"
  shows "\<exists>s. lic = Some s \<and> getLicenseType s = Some code \<and> (lic = license cfg \<or> lic = src)"
proof -
  have "license_type_of lic = Some code \<and> (lic = license cfg \<or> lic = src)"
    using assms
    by (auto simp add: resolve_license_def Let_def split: if_splits dest: check_license_type_Continue)
  then show ?thesis by (cases lic) (auto simp add: license_type_of_def)
qed

lemma post_in_attempt:
  assumes "Post h pd \<in> set (fst (attempt rt cfg host p name dep u script))"
  shows "h = host \<and> (\<exists>l abiData. prepare rt cfg p name dep u abiData = (l, Continue pd))"
proof -
  have no: "list_all other_event xs \<Longrightarrow> Post h pd \<notin> set xs" for xs
    by (auto simp add: list_all_iff)
  from attempt_trace [of rt cfg host p name dep u script] obtain rest where
    r: "fst (attempt rt cfg host p name dep u script) = GetAbi host (address dep) (etherscanApiKey cfg) # rest"
    and d: "list_all other_event rest \<or>
           (\<exists>l abiData pd rest'. prepare rt cfg p name dep u abiData = (l, Continue pd) \<and>
              rest = l @ Post host pd # rest' \<and> list_all other_event rest')"
    by blast
  from assms r have m: "Post h pd \<in> set rest" by simp
  from d show ?thesis
  proof
    assume "list_all other_event rest"
    with m no show ?thesis by blast
  next
    assume "\<exists>l abiData pd rest'. prepare rt cfg p name dep u abiData = (l, Continue pd) \<and>
              rest = l @ Post host pd # rest' \<and> list_all other_event rest'"
    then obtain l abiData pd' rest' where
      pr: "prepare rt cfg p name dep u abiData = (l, Continue pd')"
      and rest: "rest = l @ Post host pd' # rest'" and o: "list_all other_event rest'"
      by blast
    have "list_all other_event l"
      using console_only_other [OF console_only_prepare [of rt cfg p name dep u abiData]] pr by simp
    with m rest o no have "Post h pd = Post host pd'" by auto
    with pr show ?thesis by auto
  qed
qed

lemma fst_awaited [simp]: "fst (awaited r) = fst r"
  by (cases r rule: awaited.cases) simp_all

lemma fst_then_run_return [simp]: "fst (then_run r (\<lambda>_ s. ([], s, Return))) = fst r"
proof (cases r)
  case (fields t s res)
  then show ?thesis by (cases res) simp_all
qed

lemma post_in_submit:
  "Post h pd \<in> set (fst (submit rt cfg host p deployments name u script)) \<Longrightarrow>
     h = host \<and> (\<exists>dep u' l abiData. map_of deployments name = Some dep \<and>
                   prepare rt cfg p name dep u' abiData = (l, Continue pd))"
proof (induction rt cfg host p deployments name u script rule: submit.induct)
  case (1 rt cfg host p deployments name u script)
  show ?case
  proof (cases "map_of deployments name")
    case None
    with "1.prems" show ?thesis by (simp add: submit.simps)
  next
    case (Some dep)
    obtain t s r where a: "attempt rt cfg host p name dep u script = (t, s, r)"
      by (cases "attempt rt cfg host p name dep u script")
    have inatt: "Post h pd \<in> set t \<Longrightarrow> ?thesis"
      using post_in_attempt [of h pd rt cfg host p name dep u script] a Some by auto
    show ?thesis
    proof (cases r)
      case (Continue result)
      show ?thesis
      proof (cases "result = Some ''failure'' \<and> \<not> u \<and> fallbackOnSolcInput cfg")
        case True
        with "1.prems" Some a Continue
        have "Post h pd \<in> set t \<or> Post h pd \<in> set (fst (submit rt cfg host p deployments name True s))"
          by (subst (asm) submit.simps) (auto simp add: fst_then_run split: step.splits)
        then show ?thesis
        proof
          assume "Post h pd \<in> set t"
          then show ?thesis by (rule inatt)
        next
          assume "Post h pd \<in> set (fst (submit rt cfg host p deployments name True s))"
          then show ?thesis
            using "1.IH" Some True by blast
        qed
      next
        case False
        with "1.prems" Some a Continue have "Post h pd \<in> set t"
          by (subst (asm) submit.simps) (auto simp add: fst_then_run split: if_splits)
        then show ?thesis by (rule inatt)
      qed
    qed (use "1.prems" Some a inatt in \<open>auto simp add: submit.simps\<close>)
  qed
qed

lemma fst_then_run_awaited:
  "fst (then_run (awaited r) f) =
     fst r @ (case snd (snd r) of Continue a \<Rightarrow> fst (f () (fst (snd r)))
              | Return \<Rightarrow> fst (f () (fst (snd r))) | _ \<Rightarrow> [])"
proof (cases r)
  case (fields t s res)
  then show ?thesis by (cases res) simp_all
qed

lemma post_in_submit_each:
  "Post h pd \<in> set (fst (submit_each rt cfg host p deployments names script)) \<Longrightarrow>
     h = host \<and> (\<exists>name dep u l abiData. map_of deployments name = Some dep \<and>
                   prepare rt cfg p name dep u abiData = (l, Continue pd))"
proof (induction names arbitrary: script)
  case Nil
  then show ?case by simp
next
  case (Cons name names)
  from Cons.prems
  have "Post h pd \<in> set (fst (submit rt cfg host p deployments name False script)) \<or>
        (\<exists>s. Post h pd \<in> set (fst (submit_each rt cfg host p deployments names s)))"
    by (auto simp add: fst_then_run_awaited split: step.splits)
  then show ?case
    using post_in_submit [of h pd rt cfg host p deployments name False script] Cons.IH by blast
qed

text \<open>
  C8. Every submission that a run of the batch sends carries a
  \<^verbatim>\<open>licenseType\<close> between 1 and 13 that is the code of a license of the
  table. The license stage either returns, which ends the contract before the
  submission, or yields a license of the table with its code; this holds on
  the path where \<^verbatim>\<open>forceLicense\<close> lets the license of the user win as well.
\<close>

theorem posted_license_type_valid:
  "(\<forall>h pd. Post h pd \<in> set (fst (submitSources rt chainId deployments solcInputsPath cfg script)) \<longrightarrow>
      1 \<le> licenseType pd \<and> licenseType pd \<le> 13 \<and>
      (\<exists>lic. getLicenseType lic = Some (licenseType pd))) \<and>
   (snd (resolve_license cfg name contractNamePath sourceLicenseType) = Return \<or>
    (\<exists>lic code. snd (resolve_license cfg name contractNamePath sourceLicenseType) = Continue (Some lic, code) \<and>
       getLicenseType lic = Some code \<and> 1 \<le> code \<and> code \<le> 13))"
proof -
  have "1 \<le> licenseType pd \<and> licenseType pd \<le> 13 \<and> (\<exists>lic. getLicenseType lic = Some (licenseType pd))"
    if "Post h pd \<in> set (fst (submitSources rt chainId deployments solcInputsPath cfg script))" for h pd
  proof -
    from that obtain host where
      "Post h pd \<in> set (fst (submit_each rt cfg host solcInputsPath deployments (map fst deployments) script))"
      by (auto simp add: submitSources_def split: option.splits)
    from post_in_submit_each [OF this] obtain name dep u l abiData where
      "prepare rt cfg solcInputsPath name dep u abiData = (l, Continue pd)"
      by blast
    from prepare_Continue [OF this] obtain l2 cnp src lic code l3 meta where
      r: "resolve_license cfg name cnp src = (l2, Continue (lic, code))"
      and b: "build_payload rt cfg solcInputsPath name dep u meta cnp code = (l3, Continue pd)"
      by blast
    from resolve_license_Continue [OF r] obtain s where "getLicenseType s = Some code" by blast
    moreover have "licenseType pd = code" using b by (rule build_payload_licenseType)
    ultimately show ?thesis using getLicenseType_range [of s code] by auto
  qed
  moreover
  have "snd (resolve_license cfg name contractNamePath sourceLicenseType) = Return \<or>
    (\<exists>lic code. snd (resolve_license cfg name contractNamePath sourceLicenseType) = Continue (Some lic, code) \<and>
       getLicenseType lic = Some code \<and> 1 \<le> code \<and> code \<le> 13)"
  proof (cases "resolve_license cfg name contractNamePath sourceLicenseType")
    case (Pair l r)
    show ?thesis
    proof (cases r)
      case (Continue x)
      obtain lic code where x: "x = (lic, code)" by (cases x)
      from resolve_license_Continue [of cfg name contractNamePath sourceLicenseType l lic code]
        Pair Continue x
      obtain s where "lic = Some s" "getLicenseType s = Some code" by auto
      with Pair Continue x getLicenseType_range [of s code] show ?thesis by auto
    next
      case Return
      with Pair show ?thesis by simp
    qed (use Pair in \<open>auto simp add: resolve_license_def check_license_type_def quiet_def Let_def
           split: if_splits option.splits\<close>)
  qed
  ultimately show ?thesis by blast
qed

theorem posted_license_type_valid_witness:
  "Post ''http://api.etherscan.io'' (example_payload\<lparr>licenseType := 5\<rparr>) \<in>
     set (fst (submitSources example_runtime ''1'' [(''Foo'', example_deployment)] ''deployments/solcInputs''
            (example_config\<lparr>license := Some ''GPL-3.0'', forceLicense := True\<rparr>)
            [Reply not_verified, Reply submitted, Reply verified])) \<and>
   1 \<le> licenseType (example_payload\<lparr>licenseType := 5\<rparr>) \<and>
   licenseType (example_payload\<lparr>licenseType := 5\<rparr>) \<le> 13"
proof -
  have "fst (submitSources example_runtime ''1'' [(''Foo'', example_deployment)] ''deployments/solcInputs''
            (example_config\<lparr>license := Some ''GPL-3.0'', forceLicense := True\<rparr>)
            [Reply not_verified, Reply submitted, Reply verified]) =
        [GetAbi ''http://api.etherscan.io'' ''0x5FbDB2315678afecb367f032d93F642f64180aa3'' (Some ''KEY''),
         Console logInfo (Verifying ''Foo'' ''0x5FbDB2315678afecb367f032d93F642f64180aa3''),
         Console logInfo NoArgs,
         Post ''http://api.etherscan.io'' (example_payload\<lparr>licenseType := 5\<rparr>),
         Console logInfo WaitingForResult,
         Delay 10000,
         CheckStatus ''http://api.etherscan.io'' (Some ''KEY'') (JStr ''abc123''),
         Console logSuccess (NowVerified ''Foo'')]"
    by code_simp
  then have "Post ''http://api.etherscan.io'' (example_payload\<lparr>licenseType := 5\<rparr>) \<in>
     set (fst (submitSources example_runtime ''1'' [(''Foo'', example_deployment)] ''deployments/solcInputs''
            (example_config\<lparr>license := Some ''GPL-3.0'', forceLicense := True\<rparr>)
            [Reply not_verified, Reply submitted, Reply verified]))"
    by simp
  with posted_license_type_valid [of example_runtime "''1''" "[(''Foo'', example_deployment)]"
      "''deployments/solcInputs''" "example_config\<lparr>license := Some ''GPL-3.0'', forceLicense := True\<rparr>"
      "[Reply not_verified, Reply submitted, Reply verified]"]
  show ?thesis by blast
qed

subsection \<open>The fallback on the full compiler input\<close>

lemma starts_append [simp]: "starts (xs @ ys) = starts xs + starts ys"
  by (simp add: starts_def)

lemma starts_simps [simp]:
  "starts [] = 0"
  "starts (GetAbi h a k # t) = Suc (starts t)"
  "starts (Console lv msg # t) = starts t"
  "starts (Post h pd # t) = starts t"
  by (simp_all add: starts_def)

lemma starts_other: "list_all other_event t \<Longrightarrow> starts t = 0"
  by (induction t) (auto simp add: starts_def other_event_def split: event.splits)

lemma starts_attempt: "starts (fst (attempt rt cfg host p name dep u script)) = 1"
proof -
  from attempt_trace [of rt cfg host p name dep u script] obtain rest where
    r: "fst (attempt rt cfg host p name dep u script) = GetAbi host (address dep) (etherscanApiKey cfg) # rest"
    and d: "list_all other_event rest \<or>
           (\<exists>l abiData pd rest'. prepare rt cfg p name dep u abiData = (l, Continue pd) \<and>
              rest = l @ Post host pd # rest' \<and> list_all other_event rest')"
    by blast
  from d have "starts rest = 0"
  proof
    assume "list_all other_event rest"
    then show ?thesis by (rule starts_other)
  next
    assume "\<exists>l abiData pd rest'. prepare rt cfg p name dep u abiData = (l, Continue pd) \<and>
              rest = l @ Post host pd # rest' \<and> list_all other_event rest'"
    then obtain l abiData pd rest' where
      pr: "prepare rt cfg p name dep u abiData = (l, Continue pd)"
      and rest: "rest = l @ Post host pd # rest'" and o: "list_all other_event rest'"
      by blast
    have "list_all other_event l"
      using console_only_other [OF console_only_prepare [of rt cfg p name dep u abiData]] pr by simp
    with rest o show ?thesis by (simp add: starts_other)
  qed
  with r show ?thesis by simp
qed

lemma submit_full_input:
  assumes "map_of deployments name = Some dep"
  shows "starts (fst (submit rt cfg host p deployments name True script)) = 1"
proof -
  obtain t s r where a: "attempt rt cfg host p name dep True script = (t, s, r)"
    by (cases "attempt rt cfg host p name dep True script")
  have "starts t = 1" using starts_attempt [of rt cfg host p name dep True script] a by simp
  then show ?thesis
    using assms a by (cases r) (simp_all add: submit.simps)
qed

text \<open>
  C3. Let a pass over a contract end with the failure of the verification.
  If the pass did not use the full compiler input and
  \<^verbatim>\<open>fallbackOnSolcInput\<close> is set, \<^verbatim>\<open>submit\<close> prints that it falls back and runs
  once more with the full compiler input, and its trace holds exactly two
  passes. Otherwise, and so when the second pass fails as well, it prints the
  guidance and returns; its trace holds one pass.
\<close>

theorem fallback_retries_once:
  assumes "map_of deployments name = Some dep"
    and "attempt rt cfg host solcInputsPath name dep useSolcInput script =
           (t, s, Continue (Some ''failure''))"
  shows "if \<not> useSolcInput \<and> fallbackOnSolcInput cfg
         then (case submit rt cfg host solcInputsPath deployments name True s of
                 (t', s', r') \<Rightarrow>
                   submit rt cfg host solcInputsPath deployments name useSolcInput script =
                     (t @ Console logInfo FallingBack # t', s', if r' = Continue () then Return else r')) \<and>
              starts (fst (submit rt cfg host solcInputsPath deployments name useSolcInput script)) = 2
         else submit rt cfg host solcInputsPath deployments name useSolcInput script =
                (t @ [Console logInfo Guidance], s, Return) \<and>
              starts (fst (submit rt cfg host solcInputsPath deployments name useSolcInput script)) = 1"
proof -
  have st: "starts t = 1"
    using starts_attempt [of rt cfg host solcInputsPath name dep useSolcInput script] assms(2) by simp
  show ?thesis
  proof (cases "\<not> useSolcInput \<and> fallbackOnSolcInput cfg")
    case True
    obtain t' s' r' where r: "submit rt cfg host solcInputsPath deployments name True s = (t', s', r')"
      by (cases "submit rt cfg host solcInputsPath deployments name True s")
    have st': "starts t' = 1"
      using submit_full_input [OF assms(1), of rt cfg host solcInputsPath s] r by simp
    have "submit rt cfg host solcInputsPath deployments name useSolcInput script =
            (t @ Console logInfo FallingBack # t', s', if r' = Continue () then Return else r')"
      using True assms r
      by (subst submit.simps) (cases r'; simp)
    with r st st' show ?thesis unfolding if_P [OF True] by simp
  next
    case c: False
    have eq: "submit rt cfg host solcInputsPath deployments name useSolcInput script =
            (t @ [Console logInfo Guidance], s, Return)"
      using c assms by (subst submit.simps) auto
    show ?thesis unfolding if_not_P [OF c] using eq st by simp
  qed
qed

theorem fallback_retries_once_witness:
  "submit example_runtime (example_config\<lparr>fallbackOnSolcInput := True\<rparr>) ''http://api.etherscan.io''
     ''deployments/solcInputs'' [(''Foo'', example_deployment)] ''Foo'' False
     [Reply not_verified, Reply submitted, Reply failed, Reply not_verified, Reply submitted, Reply failed] =
     (example_failing_pass example_payload @ Console logInfo FallingBack #
        example_failing_pass (example_payload\<lparr>sourceCode := example_solc_input_text\<rparr>) @
        [Console logInfo Guidance],
      [], Return) \<and>
   starts (fst (submit example_runtime (example_config\<lparr>fallbackOnSolcInput := True\<rparr>)
     ''http://api.etherscan.io'' ''deployments/solcInputs'' [(''Foo'', example_deployment)] ''Foo'' False
     [Reply not_verified, Reply submitted, Reply failed, Reply not_verified, Reply submitted, Reply failed])) = 2"
proof -
  have d: "map_of [(''Foo'', example_deployment)] ''Foo'' = Some example_deployment"
    by simp
  have a1: "attempt example_runtime (example_config\<lparr>fallbackOnSolcInput := True\<rparr>) ''http://api.etherscan.io''
      ''deployments/solcInputs'' ''Foo'' example_deployment False
      [Reply not_verified, Reply submitted, Reply failed, Reply not_verified, Reply submitted, Reply failed] =
      (example_failing_pass example_payload, [Reply not_verified, Reply submitted, Reply failed],
       Continue (Some ''failure''))"
    by code_simp
  have a2: "attempt example_runtime (example_config\<lparr>fallbackOnSolcInput := True\<rparr>) ''http://api.etherscan.io''
      ''deployments/solcInputs'' ''Foo'' example_deployment True
      [Reply not_verified, Reply submitted, Reply failed] =
      (example_failing_pass (example_payload\<lparr>sourceCode := example_solc_input_text\<rparr>), [],
       Continue (Some ''failure''))"
    by code_simp
  have c1: "\<not> False \<and> fallbackOnSolcInput (example_config\<lparr>fallbackOnSolcInput := True\<rparr>)"
    by simp
  have c2: "\<not> (\<not> True \<and> fallbackOnSolcInput (example_config\<lparr>fallbackOnSolcInput := True\<rparr>))"
    by simp
  note second = fallback_retries_once [OF d a2, unfolded if_not_P [OF c2]]
  note first = fallback_retries_once [OF d a1, unfolded if_P [OF c1]]
  from first [THEN conjunct1] second [THEN conjunct1]
  have "submit example_runtime (example_config\<lparr>fallbackOnSolcInput := True\<rparr>) ''http://api.etherscan.io''
     ''deployments/solcInputs'' [(''Foo'', example_deployment)] ''Foo'' False
     [Reply not_verified, Reply submitted, Reply failed, Reply not_verified, Reply submitted, Reply failed] =
     (example_failing_pass example_payload @ Console logInfo FallingBack #
        example_failing_pass (example_payload\<lparr>sourceCode := example_solc_input_text\<rparr>) @
        [Console logInfo Guidance],
      [], Return)"
    by simp
  with first [THEN conjunct2] show ?thesis by (rule conjI [rotated])
qed

subsection \<open>The host of the explorer\<close>

text \<open>
  C5. Chain id 1 selects the host \<^verbatim>\<open>http://api.etherscan.io\<close>, to which the
  requests of the batch then go. The chain ids without a host are those
  outside the table of nine, and for each of them \<^verbatim>\<open>submitSources\<close> prints
  that the network is not supported and returns: no contract is looked at, no
  request is sent, no answer of the explorer is consumed.
\<close>

theorem unsupported_chain_aborts_batch:
  "host_of ''1'' = Some ''http://api.etherscan.io'' \<and>
   submitSources rt ''1'' deployments solcInputsPath cfg script =
     submit_each rt cfg ''http://api.etherscan.io'' solcInputsPath deployments (map fst deployments) script \<and>
   (host_of chainId = None) =
     (chainId \<notin> set [''1'', ''3'', ''4'', ''5'', ''42'', ''56'', ''97'', ''128'', ''256'']) \<and>
   (chainId \<notin> set [''1'', ''3'', ''4'', ''5'', ''42'', ''56'', ''97'', ''128'', ''256''] \<longrightarrow>
      submitSources rt chainId deployments solcInputsPath cfg script =
        ([Console logError (NetworkNotSupported chainId)], script, Return))"
  by (simp add: host_of_def submitSources_def)

theorem unsupported_chain_aborts_batch_witness:
  "submitSources example_runtime ''999'' [(''Foo'', example_deployment)] ''deployments/solcInputs''
     example_config [Reply not_verified, Reply submitted, Reply verified] =
     ([Console logError (NetworkNotSupported ''999'')],
      [Reply not_verified, Reply submitted, Reply verified], Return)"
  using unsupported_chain_aborts_batch [of example_runtime "[(''Foo'', example_deployment)]"
      "''deployments/solcInputs''" example_config "[Reply not_verified, Reply submitted, Reply verified]"
      "''999''"]
  by simp

subsection \<open>A contract that ends before its submission\<close>

lemma submit_returns_before_prepare:
  assumes "map_of deployments name = Some dep"
    and "prepare rt cfg solcInputsPath name dep useSolcInput abiData = (l, Return)"
  shows "submit rt cfg host solcInputsPath deployments name useSolcInput (Reply abiData # script) =
           (GetAbi host (address dep) (etherscanApiKey cfg) # l, script, Return)"
  using assms by (simp add: submit.simps attempt_def perform_def)

lemma submit_each_skips:
  assumes "submit rt cfg host solcInputsPath deployments name False script = (t, s, Return)"
  shows "submit_each rt cfg host solcInputsPath deployments (name # names) script =
           (t @ fst (submit_each rt cfg host solcInputsPath deployments names s),
            snd (submit_each rt cfg host solcInputsPath deployments names s))"
  using assms by simp

text \<open>
  C9. If the \<^verbatim>\<open>status\<close> of the answer to the \<^verbatim>\<open>getabi\<close> request is not the
  string 0 and \<^verbatim>\<open>JSON.parse\<close> throws on its \<^verbatim>\<open>result\<close>, be it in converting
  the result to a string or in parsing that string, then \<^verbatim>\<open>submit\<close> prints
  the exception and returns after the one request, without a submission, and
  the loop over the contracts goes on with the next name and the next answer.
\<close>

theorem unparsable_abi_aborts_contract:
  assumes "map_of deployments name = Some dep"
    and "get_field abiData ''status'' = Continue status"
    and "status \<noteq> JStr ''0''"
    and "get_field abiData ''result'' = Continue result"
    and "bind_step (to_string result) (parse_json rt) = Throw e"
  shows "submit rt cfg host solcInputsPath deployments name useSolcInput (Reply abiData # script) =
           ([GetAbi host (address dep) (etherscanApiKey cfg), Console logError (Caught e)],
            script, Return) \<and>
         submit_each rt cfg host solcInputsPath deployments (name # names) (Reply abiData # script) =
           (GetAbi host (address dep) (etherscanApiKey cfg) # Console logError (Caught e) #
              fst (submit_each rt cfg host solcInputsPath deployments names script),
            snd (submit_each rt cfg host solcInputsPath deployments names script))"
proof -
  have "check_verified rt name (address dep) abiData = ([Console logError (Caught e)], Return)"
    using assms(2-5) by (simp add: check_verified_def quiet_def)
  then have "prepare rt cfg solcInputsPath name dep u abiData =
               ([Console logError (Caught e)], Return)" for u
    by (simp add: prepare_def front_def)
  then have s: "submit rt cfg host solcInputsPath deployments name u (Reply abiData # script) =
           ([GetAbi host (address dep) (etherscanApiKey cfg), Console logError (Caught e)],
            script, Return)" for u
    using submit_returns_before_prepare [OF assms(1)] by simp
  from s [of useSolcInput] submit_each_skips [OF s [of False], of names] show ?thesis by simp
qed

theorem unparsable_abi_aborts_contract_witness:
  "submit_each example_runtime example_config ''http://api.etherscan.io'' ''deployments/solcInputs''
     [(''Foo'', example_deployment), (''Bar'', example_deployment)] [''Foo'', ''Bar'']
     [Reply (JStr ''<html>Bad gateway</html>''), Reply (JStr ''<html>Bad gateway</html>'')] =
     ([GetAbi ''http://api.etherscan.io'' ''0x5FbDB2315678afecb367f032d93F642f64180aa3'' (Some ''KEY''),
       Console logError (Caught SyntaxError),
       GetAbi ''http://api.etherscan.io'' ''0x5FbDB2315678afecb367f032d93F642f64180aa3'' (Some ''KEY''),
       Console logError (Caught SyntaxError)], [], Return)"
proof -
  have p: "bind_step (to_string JUndefined) (parse_json example_runtime) = Throw SyntaxError"
    by code_simp
  have g: "get_field (JStr ''<html>Bad gateway</html>'') ''status'' = Continue JUndefined"
    "get_field (JStr ''<html>Bad gateway</html>'') ''result'' = Continue JUndefined"
    "JUndefined \<noteq> JStr ''0''"
    by simp_all
  have "map_of [(''Foo'', example_deployment), (''Bar'', example_deployment)] ''Foo'' =
          Some example_deployment"
    "map_of [(''Foo'', example_deployment), (''Bar'', example_deployment)] ''Bar'' =
          Some example_deployment"
    by simp_all
  from unparsable_abi_aborts_contract [OF this(1) g(1) g(3) g(2) p, where names = "[''Bar'']"]
       unparsable_abi_aborts_contract [OF this(2) g(1) g(3) g(2) p, where names = "[]"]
  show ?thesis
    by (simp add: example_config_def example_deployment_def del: submit_each.simps)
       (simp add: example_deployment_def)
qed

subsection \<open>Constructor arguments\<close>

lemma find_constructor_none:
  assumes "\<forall>v \<in> set vs. \<exists>t. get_field v ''type'' = Continue t \<and> t \<noteq> JStr ''constructor''"
  shows "find_constructor vs = Continue None"
  using assms by (induction vs) auto

lemma build_payload_constructorArguements:
  assumes "build_payload rt cfg solcInputsPath name dep useSolcInput meta contractNamePath code =
             (l, Continue pd)"
  shows "\<exists>l'. constructor_arguments rt dep = (l', Continue (constructorArguements pd))"
  using assms unfolding build_payload_def and_then_Continue quiet_def by auto

text \<open>
  C10. If the deployment has \<^verbatim>\<open>args\<close> and no entry of its ABI has the type
  \<^verbatim>\<open>constructor\<close>, then the stage of the constructor arguments goes on
  without a value, whatever the encoder would do: it is not called, nothing is
  printed and nothing is thrown. The payload built for the contract, and so any
  payload that a pass over it submits, has no \<^verbatim>\<open>constructorArguements\<close>.
\<close>

theorem args_without_constructor:
  assumes "args dep = Some values"
    and "\<forall>v \<in> set (abi dep). \<exists>t. get_field v ''type'' = Continue t \<and> t \<noteq> JStr ''constructor''"
  shows "constructor_arguments rt dep = ([], Continue None) \<and>
         (\<forall>l pd. prepare rt cfg solcInputsPath name dep useSolcInput abiData = (l, Continue pd) \<longrightarrow>
            constructorArguements pd = None) \<and>
         (\<forall>h pd. Post h pd \<in> set (fst (attempt rt cfg host solcInputsPath name dep useSolcInput script)) \<longrightarrow>
            constructorArguements pd = None)"
proof -
  have c: "constructor_arguments rt dep = ([], Continue None)"
    using assms(1) find_constructor_none [OF assms(2)]
    by (simp add: constructor_arguments_def quiet_def)
  have p: "constructorArguements pd = None"
    if "prepare rt cfg solcInputsPath name dep useSolcInput abiData = (l, Continue pd)"
    for l pd abiData
  proof -
    from prepare_Continue [OF that] obtain meta cnp code l3 where
      "build_payload rt cfg solcInputsPath name dep useSolcInput meta cnp code = (l3, Continue pd)"
      by blast
    from build_payload_constructorArguements [OF this] c show ?thesis by simp
  qed
  have "constructorArguements pd = None"
    if "Post h pd \<in> set (fst (attempt rt cfg host solcInputsPath name dep useSolcInput script))"
    for h pd
    using post_in_attempt [OF that] p by blast
  with c p show ?thesis by blast
qed

theorem args_without_constructor_witness:
  "constructor_arguments example_runtime (example_deployment\<lparr>args := Some [JNum ''42'']\<rparr>) =
     ([], Continue None) \<and>
   Post ''http://api.etherscan.io'' example_payload \<in>
     set (fst (attempt example_runtime example_config ''http://api.etherscan.io'' ''deployments/solcInputs''
                 ''Foo'' (example_deployment\<lparr>args := Some [JNum ''42'']\<rparr>) False
                 [Reply not_verified, Reply submitted, Reply verified])) \<and>
   constructorArguements example_payload = None"
proof -
  have a: "args (example_deployment\<lparr>args := Some [JNum ''42'']\<rparr>) = Some [JNum ''42'']"
    by simp
  have b: "\<forall>v \<in> set (abi (example_deployment\<lparr>args := Some [JNum ''42'']\<rparr>)).
             \<exists>t. get_field v ''type'' = Continue t \<and> t \<noteq> JStr ''constructor''"
    by (simp add: example_deployment_def)
  have "fst (attempt example_runtime example_config ''http://api.etherscan.io'' ''deployments/solcInputs''
               ''Foo'' (example_deployment\<lparr>args := Some [JNum ''42'']\<rparr>) False
               [Reply not_verified, Reply submitted, Reply verified]) =
        [GetAbi ''http://api.etherscan.io'' ''0x5FbDB2315678afecb367f032d93F642f64180aa3'' (Some ''KEY''),
         Console logInfo (Verifying ''Foo'' ''0x5FbDB2315678afecb367f032d93F642f64180aa3''),
         Post ''http://api.etherscan.io'' example_payload,
         Console logInfo WaitingForResult,
         Delay 10000,
         CheckStatus ''http://api.etherscan.io'' (Some ''KEY'') (JStr ''abc123'')]"
    by code_simp
  then have "Post ''http://api.etherscan.io'' example_payload \<in>
     set (fst (attempt example_runtime example_config ''http://api.etherscan.io'' ''deployments/solcInputs''
                 ''Foo'' (example_deployment\<lparr>args := Some [JNum ''42'']\<rparr>) False
                 [Reply not_verified, Reply submitted, Reply verified]))"
    by simp
  with args_without_constructor [OF a b, of example_runtime example_config "''deployments/solcInputs''"
      "''Foo''" False _ "''http://api.etherscan.io''" "[Reply not_verified, Reply submitted, Reply verified]"]
  show ?thesis by blast
qed

subsection \<open>The compilation target\<close>

text \<open>
  C4, as stated, fails. With two entries in \<^verbatim>\<open>compilationTarget\<close> the program
  takes the first one, \<^verbatim>\<open>Object.keys(compilationTarget)[0]\<close>, and submits the
  contract under it.
\<close>

theorem ambiguous_target_counterexample:
  "compilation_target ''Foo'' ambiguous_metadata = ([], Continue (''A.sol'', JStr ''Foo'')) \<and>
   submit example_runtime example_config ''http://api.etherscan.io'' ''deployments/solcInputs''
     [(''Foo'', example_deployment\<lparr>metadata := Some ambiguous_metadata_text\<rparr>)] ''Foo'' False
     [Reply not_verified, Reply submitted, Reply verified] =
     ([GetAbi ''http://api.etherscan.io'' ''0x5FbDB2315678afecb367f032d93F642f64180aa3'' (Some ''KEY''),
       Console logInfo (Verifying ''Foo'' ''0x5FbDB2315678afecb367f032d93F642f64180aa3''),
       Console logInfo NoArgs,
       Post ''http://api.etherscan.io'' example_payload,
       Console logInfo WaitingForResult,
       Delay 10000,
       CheckStatus ''http://api.etherscan.io'' (Some ''KEY'') (JStr ''abc123''),
       Console logSuccess (NowVerified ''Foo'')],
      [], Return)"
  by code_simp

lemma compilation_target_cases:
  assumes "get_field meta ''settings'' = Continue settings"
  shows "(nullish settings \<or>
          (\<exists>ct. get_field settings ''compilationTarget'' = Continue ct \<and> (\<not> truthy ct \<or> ct = JObj [])) \<or>
          (\<exists>path cname more. get_field settings ''compilationTarget'' = Continue (JObj ((path, cname) # more)) \<and>
             (path = [] \<or> \<not> truthy cname)) \<longrightarrow>
          compilation_target name meta = ([Console logError (NoQualifiedName name)], Return)) \<and>
         (\<forall>path cname more.
            get_field settings ''compilationTarget'' = Continue (JObj ((path, cname) # more)) \<and>
            path \<noteq> [] \<and> truthy cname \<longrightarrow>
            compilation_target name meta = ([], Continue (path, cname)))"
  using assms
  by (cases settings)
     (auto simp add: compilation_target_def quiet_def first_entry_def object_keys_def)

text \<open>
  C4, amended. Let the contract not be verified yet and its metadata parse.
  If \<^verbatim>\<open>settings\<close> or its \<^verbatim>\<open>compilationTarget\<close> is missing, or the mapping is
  empty, or its first entry has an empty path or a name that is not truthy,
  then \<^verbatim>\<open>submit\<close> prints the error and returns without a submission, and the
  loop goes on with the next contract. If the mapping has a first entry with a
  path and a name, this entry is the target, whatever entries follow it.
\<close>

theorem compilation_target_first_entry:
  assumes "map_of deployments name = Some dep"
    and "check_verified rt name (address dep) abiData = (l, Continue ())"
    and "parse_metadata rt name (metadata dep) = (l', Continue meta)"
    and "get_field meta ''settings'' = Continue settings"
  shows "(nullish settings \<or>
          (\<exists>ct. get_field settings ''compilationTarget'' = Continue ct \<and> (\<not> truthy ct \<or> ct = JObj [])) \<or>
          (\<exists>path cname more. get_field settings ''compilationTarget'' = Continue (JObj ((path, cname) # more)) \<and>
             (path = [] \<or> \<not> truthy cname)) \<longrightarrow>
          submit rt cfg host solcInputsPath deployments name useSolcInput (Reply abiData # script) =
            (GetAbi host (address dep) (etherscanApiKey cfg) # l @ l' @
               [Console logError (NoQualifiedName name)], script, Return) \<and>
          submit_each rt cfg host solcInputsPath deployments (name # names) (Reply abiData # script) =
            (GetAbi host (address dep) (etherscanApiKey cfg) # l @ l' @
               Console logError (NoQualifiedName name) #
               fst (submit_each rt cfg host solcInputsPath deployments names script),
             snd (submit_each rt cfg host solcInputsPath deployments names script))) \<and>
         (\<forall>path cname more.
            get_field settings ''compilationTarget'' = Continue (JObj ((path, cname) # more)) \<and>
            path \<noteq> [] \<and> truthy cname \<longrightarrow>
            compilation_target name meta = ([], Continue (path, cname)))"
proof -
  note cases = compilation_target_cases [OF assms(4), of name]
  have "submit rt cfg host solcInputsPath deployments name useSolcInput (Reply abiData # script) =
            (GetAbi host (address dep) (etherscanApiKey cfg) # l @ l' @
               [Console logError (NoQualifiedName name)], script, Return) \<and>
          submit_each rt cfg host solcInputsPath deployments (name # names) (Reply abiData # script) =
            (GetAbi host (address dep) (etherscanApiKey cfg) # l @ l' @
               Console logError (NoQualifiedName name) #
               fst (submit_each rt cfg host solcInputsPath deployments names script),
             snd (submit_each rt cfg host solcInputsPath deployments names script))"
    if "compilation_target name meta = ([Console logError (NoQualifiedName name)], Return)"
  proof -
    have "prepare rt cfg solcInputsPath name dep u abiData =
            (l @ l' @ [Console logError (NoQualifiedName name)], Return)" for u
      using that assms(2,3) by (simp add: prepare_def front_def)
    then have s: "submit rt cfg host solcInputsPath deployments name u (Reply abiData # script) =
            (GetAbi host (address dep) (etherscanApiKey cfg) # l @ l' @
               [Console logError (NoQualifiedName name)], script, Return)" for u
      using submit_returns_before_prepare [OF assms(1)] by simp
    from s [of useSolcInput] submit_each_skips [OF s [of False], of names] show ?thesis by simp
  qed
  with cases show ?thesis by blast
qed

theorem compilation_target_first_entry_witness:
  "submit example_runtime example_config ''http://api.etherscan.io'' ''deployments/solcInputs''
     [(''Foo'', example_deployment\<lparr>metadata := Some untargeted_metadata_text\<rparr>)] ''Foo'' False
     [Reply not_verified, Reply submitted, Reply verified] =
     ([GetAbi ''http://api.etherscan.io'' ''0x5FbDB2315678afecb367f032d93F642f64180aa3'' (Some ''KEY''),
       Console logError (NoQualifiedName ''Foo'')],
      [Reply submitted, Reply verified], Return) \<and>
   compilation_target ''Foo'' ambiguous_metadata = ([], Continue (''A.sol'', JStr ''Foo''))"
proof -
  have d: "map_of [(''Foo'', example_deployment\<lparr>metadata := Some untargeted_metadata_text\<rparr>)] ''Foo'' =
             Some (example_deployment\<lparr>metadata := Some untargeted_metadata_text\<rparr>)"
    "map_of [(''Foo'', example_deployment\<lparr>metadata := Some ambiguous_metadata_text\<rparr>)] ''Foo'' =
             Some (example_deployment\<lparr>metadata := Some ambiguous_metadata_text\<rparr>)"
    by simp_all
  have c: "check_verified example_runtime ''Foo''
             (address (example_deployment\<lparr>metadata := Some untargeted_metadata_text\<rparr>)) not_verified =
             ([], Continue ())"
    "check_verified example_runtime ''Foo''
             (address (example_deployment\<lparr>metadata := Some ambiguous_metadata_text\<rparr>)) not_verified =
             ([], Continue ())"
    by code_simp+
  have m: "parse_metadata example_runtime ''Foo''
             (metadata (example_deployment\<lparr>metadata := Some untargeted_metadata_text\<rparr>)) =
             ([], Continue untargeted_metadata)"
    "parse_metadata example_runtime ''Foo''
             (metadata (example_deployment\<lparr>metadata := Some ambiguous_metadata_text\<rparr>)) =
             ([], Continue ambiguous_metadata)"
    by code_simp+
  have s: "get_field untargeted_metadata ''settings'' =
             Continue (JObj [(''optimizer'', JObj [(''enabled'', JBool False)])])"
    "get_field ambiguous_metadata ''settings'' =
             Continue (JObj [(''compilationTarget'', JObj [(''A.sol'', JStr ''Foo''), (''B.sol'', JStr ''Bar'')])])"
    by (simp_all add: untargeted_metadata_def ambiguous_metadata_def)
  have absent: "get_field (JObj [(''optimizer'', JObj [(''enabled'', JBool False)])]) ''compilationTarget'' =
                  Continue JUndefined \<and> (\<not> truthy JUndefined \<or> JUndefined = JObj [])"
    by simp
  have two: "get_field (JObj [(''compilationTarget'', JObj [(''A.sol'', JStr ''Foo''), (''B.sol'', JStr ''Bar'')])])
               ''compilationTarget'' =
             Continue (JObj ((''A.sol'', JStr ''Foo'') # [(''B.sol'', JStr ''Bar'')])) \<and>
             ''A.sol'' \<noteq> [] \<and> truthy (JStr ''Foo'')"
    by simp
  from compilation_target_first_entry [OF d(1) c(1) m(1) s(1), of example_config
      "''http://api.etherscan.io''" "''deployments/solcInputs''" False
      "[Reply submitted, Reply verified]" "[]"] absent
  have "submit example_runtime example_config ''http://api.etherscan.io'' ''deployments/solcInputs''
     [(''Foo'', example_deployment\<lparr>metadata := Some untargeted_metadata_text\<rparr>)] ''Foo'' False
     [Reply not_verified, Reply submitted, Reply verified] =
     ([GetAbi ''http://api.etherscan.io'' ''0x5FbDB2315678afecb367f032d93F642f64180aa3'' (Some ''KEY''),
       Console logError (NoQualifiedName ''Foo'')],
      [Reply submitted, Reply verified], Return)"
    by (simp add: example_deployment_def example_config_def del: submit_each.simps)
  moreover
  from compilation_target_first_entry [OF d(2) c(2) m(2) s(2), of example_config
      "''http://api.etherscan.io''" "''deployments/solcInputs''" False "[]" "[]"] two
  have "compilation_target ''Foo'' ambiguous_metadata = ([], Continue (''A.sol'', JStr ''Foo''))"
    by blast
  ultimately show ?thesis by simp
qed

subsection \<open>Objects and their properties\<close>



lemma keys_replace_value [simp]: "map fst (replace_value kvs k v) = map fst kvs"
  by (induction kvs k v rule: replace_value.induct) auto










subsection \<open>Merging the libraries\<close>















subsection \<open>The compiler input from the metadata\<close>








end
